theory Spec2Isabelle
  imports Complex_Main
begin

section \<open>Errors and their classification (lib/error-handler)\<close>

text \<open>
  The enums \<open>ErrorCategory\<close> and \<open>ErrorSeverity\<close>, and the class \<open>AppError\<close> with the
  fields the program reads (\<open>context\<close> is a list of keys and values). The \<open>timestamp\<close>
  field (the wall clock at construction) is left out. A thrown value is either a plain
  JavaScript \<open>Error\<close> with its message, or an \<open>AppError\<close>.
\<close>

datatype ErrorCategory =
  VALIDATION | AUTHENTICATION | EXTERNAL_API | DATABASE | BUSINESS_LOGIC | SYSTEM

datatype ErrorSeverity = LOW | MEDIUM | HIGH | CRITICAL

datatype json = JStr string | JNum int

record AppError =
  message :: string
  category :: ErrorCategory
  severity :: ErrorSeverity
  retryable :: bool
  err_context :: "(string \<times> json) list"

datatype error = Error string | AppErr AppError

text \<open>
  \<open>new AppError(message, category, severity = MEDIUM, retryable = false, context = {})\<close>;
  the two constructors below are the constructor called with three and with five arguments.
\<close>

definition newAppError :: "string \<Rightarrow> ErrorCategory \<Rightarrow> ErrorSeverity \<Rightarrow> bool
    \<Rightarrow> (string \<times> json) list \<Rightarrow> AppError" where
  "newAppError m c s r ctx =
     \<lparr>message = m, category = c, severity = s, retryable = r, err_context = ctx\<rparr>"

definition newAppError3 :: "string \<Rightarrow> ErrorCategory \<Rightarrow> ErrorSeverity \<Rightarrow> AppError" where
  "newAppError3 m c s = newAppError m c s False []"

fun error_message :: "error \<Rightarrow> string" where
  "error_message (Error m) = m"
| "error_message (AppErr a) = message a"

subsection \<open>The platform\<close>

text \<open>
  Two things the program uses are built into the language and are not code of the
  repository; they are parameters of the model. \<open>toLowerCase\<close> is
  \<open>String.prototype.toLowerCase\<close>. The other fields are the arithmetic of the numbers of
  the language, double-precision floating point numbers, whose type \<open>'n\<close> is left open:
  \<open>d_mul\<close> and \<open>d_add\<close> are \<open>*\<close> and \<open>+\<close>, \<open>Math_pow\<close> is \<open>Math.pow\<close>, and \<open>d_num i\<close> is the
  number written as the integer \<open>i\<close>.

  A string is the sequence of the bytes of its UTF-8 encoding; \<open>includes_str\<close> is
  \<open>String.prototype.includes\<close>, the search for a contiguous occurrence.
\<close>

record 'n platform =
  toLowerCase :: "string \<Rightarrow> string"
  d_mul :: "'n \<Rightarrow> 'n \<Rightarrow> 'n"
  d_add :: "'n \<Rightarrow> 'n \<Rightarrow> 'n"
  Math_pow :: "'n \<Rightarrow> 'n \<Rightarrow> 'n"
  d_num :: "int \<Rightarrow> 'n"

fun startsWith :: "string \<Rightarrow> string \<Rightarrow> bool" where
  "startsWith s [] = True"
| "startsWith [] (k # ks) = False"
| "startsWith (c # cs) (k # ks) = (c = k \<and> startsWith cs ks)"

fun includes_str :: "string \<Rightarrow> string \<Rightarrow> bool" where
  "includes_str [] k = (k = [])"
| "includes_str (c # cs) k = (startsWith (c # cs) k \<or> includes_str cs k)"

subsection \<open>ErrorHandler.categorizeError\<close>

fun categorizeError :: "'n platform \<Rightarrow> error \<Rightarrow> (string \<times> json) list \<Rightarrow> AppError" where
  "categorizeError js (AppErr a) ctx = a"
| "categorizeError js (Error m) ctx =
     (let msg = toLowerCase js m in
      if includes_str msg ''fetch'' \<or> includes_str msg ''network'' \<or> includes_str msg ''timeout''
      then newAppError m EXTERNAL_API HIGH True ctx
      else if includes_str msg ''database'' \<or> includes_str msg ''sql'' \<or> includes_str msg ''connection''
      then newAppError m DATABASE HIGH True ctx
      else if includes_str msg ''unauthorized'' \<or> includes_str msg ''forbidden'' \<or> includes_str msg ''token''
      then newAppError m AUTHENTICATION MEDIUM False ctx
      else if includes_str msg ''validation'' \<or> includes_str msg ''invalid'' \<or> includes_str msg ''required''
      then newAppError m VALIDATION LOW False ctx
      else newAppError m SYSTEM MEDIUM False ctx)"

section \<open>The retry executor (ErrorHandler.withRetry)\<close>

text \<open>
  An operation is a function on a state of its own: it returns a value or throws, and
  leaves a new state. The executor runs beside it with what it uses itself: the values
  \<open>Math.random()\<close> returns (\<open>rt_random n\<close> is the value of the \<open>n\<close>-th draw), the number of
  draws made, and the delays given to \<open>setTimeout\<close>, oldest first. \<open>maxRetries\<close> and the
  loop counter are integers; \<open>baseDelay\<close>, the draws and the delays are numbers of the
  platform.
\<close>

record ('s, 'n) runtime =
  rt_state :: 's
  rt_random :: "nat \<Rightarrow> 'n"
  rt_drawn :: nat
  rt_timeouts :: "'n list"

type_synonym ('s, 'a) operation = "'s \<Rightarrow> (error + 'a) \<times> 's"

text \<open>
  \<open>const delay = baseDelay * Math.pow(2, attempt - 1) + Math.random() * 1000\<close>, in the
  arithmetic of the platform, then the wait for that delay.
\<close>

definition backoff :: "'n platform \<Rightarrow> 'n \<Rightarrow> int \<Rightarrow> ('s, 'n) runtime \<Rightarrow> ('s, 'n) runtime" where
  "backoff js baseDelay attempt rt =
     (let delay = d_add js
                    (d_mul js baseDelay (Math_pow js (d_num js 2) (d_num js (attempt - 1))))
                    (d_mul js (rt_random rt (rt_drawn rt)) (d_num js 1000))
      in rt\<lparr>rt_drawn := Suc (rt_drawn rt), rt_timeouts := rt_timeouts rt @ [delay]\<rparr>)"

text \<open>
  The message of the \<open>TypeError\<close> that reading \<open>.message\<close> of \<open>undefined\<close> throws:
  \<open>lastError\<close> is still unassigned after the loop when the loop body never ran.
\<close>

definition undefinedMessage :: string where
  "undefinedMessage = ''Cannot read properties of undefined (reading 'message')''"

text \<open>
  The loop \<open>for (attempt = 1; attempt <= maxRetries; attempt++)\<close> with its body, and the
  \<open>throw\<close> after it. \<open>lastError\<close> is \<open>None\<close> until the first failure.
\<close>

function retryLoop :: "'n platform \<Rightarrow> ('s, 'a) operation \<Rightarrow> int \<Rightarrow> 'n \<Rightarrow> int \<Rightarrow> error option
    \<Rightarrow> ('s, 'n) runtime \<Rightarrow> (error + 'a) \<times> ('s, 'n) runtime" where
  "retryLoop js operation maxRetries baseDelay attempt lastError rt =
     (let afterLoop = (\<lambda>le r.
            (case le of
               None \<Rightarrow> (Inl (Error undefinedMessage), r)
             | Some e \<Rightarrow>
                 (Inl (AppErr (categorizeError js e [(''attempts'', JNum maxRetries)])), r)))
      in
      if attempt \<le> maxRetries then
        (case operation (rt_state rt) of
           (Inr v, s') \<Rightarrow> (Inr v, rt\<lparr>rt_state := s'\<rparr>)
         | (Inl e, s') \<Rightarrow>
             (let appError = categorizeError js e [] in
              if \<not> retryable appError then (Inl (AppErr appError), rt\<lparr>rt_state := s'\<rparr>)
              else if attempt = maxRetries then afterLoop (Some e) (rt\<lparr>rt_state := s'\<rparr>)
              else retryLoop js operation maxRetries baseDelay (attempt + 1) (Some e)
                     (backoff js baseDelay attempt (rt\<lparr>rt_state := s'\<rparr>))))
      else afterLoop lastError rt)"
  by pat_completeness auto
termination
  by (relation "measure (\<lambda>(js, operation, maxRetries, baseDelay, attempt, lastError, rt).
        nat (maxRetries + 1 - attempt))") auto

definition withRetry :: "'n platform \<Rightarrow> ('s, 'a) operation \<Rightarrow> int \<Rightarrow> 'n \<Rightarrow> ('s, 'n) runtime
    \<Rightarrow> (error + 'a) \<times> ('s, 'n) runtime" where
  "withRetry js operation maxRetries baseDelay rt =
     retryLoop js operation maxRetries baseDelay 1 None rt"

subsection \<open>Notions for stating properties of the executor\<close>

text \<open>
  \<open>iterate_op operation n s\<close> is the state after \<open>n\<close> invocations of the operation from
  the state \<open>s\<close>. \<open>counted operation\<close> is the operation together with a counter of its
  invocations. \<open>failsRetryably operation s\<close>: invoked in \<open>s\<close>, the operation throws an
  error that \<open>categorizeError\<close> calls retryable.
\<close>

fun iterate_op :: "('s, 'a) operation \<Rightarrow> nat \<Rightarrow> 's \<Rightarrow> 's" where
  "iterate_op operation 0 s = s"
| "iterate_op operation (Suc n) s = iterate_op operation n (snd (operation s))"



text \<open>
  \<open>delaysFrom js baseDelay attempt rt k\<close> are the delays of \<open>k\<close> consecutive failed
  attempts, the first of them being the attempt numbered \<open>attempt\<close>, each computed by the
  formula of the code from the draws the runtime \<open>rt\<close> has in store. \<open>freshRuntime\<close> is the
  runtime at the start of a request.

  The numbers of the platform are read as real numbers by a function \<open>val\<close>.
  \<open>exactDelays js val baseDelay rnd k\<close>: for the first \<open>k\<close> attempts and draws, the value of
  the computed delay is the value of the formula in exact arithmetic, that is, no
  rounding occurs. \<open>unitDraws val rnd\<close>: every draw has a value in \<open>[0, 1)\<close>.
  \<open>delaysWithin val baseDelay ds\<close>: the \<open>i\<close>-th delay, counted from 1, has a value between
  \<open>baseDelay * 2 ^ (i - 1)\<close> and that plus 1000.
\<close>

definition delaysFrom :: "'n platform \<Rightarrow> 'n \<Rightarrow> int \<Rightarrow> ('s, 'n) runtime \<Rightarrow> nat \<Rightarrow> 'n list" where
  "delaysFrom js baseDelay attempt rt k =
     map (\<lambda>i. d_add js
                 (d_mul js baseDelay
                    (Math_pow js (d_num js 2) (d_num js (attempt + int i - 1))))
                 (d_mul js (rt_random rt (rt_drawn rt + i)) (d_num js 1000)))
       [0..<k]"

definition freshRuntime :: "'s \<Rightarrow> (nat \<Rightarrow> 'n) \<Rightarrow> ('s, 'n) runtime" where
  "freshRuntime s rnd = \<lparr>rt_state = s, rt_random = rnd, rt_drawn = 0, rt_timeouts = []\<rparr>"





definition scripted :: "(error + string) list \<Rightarrow> (nat, string) operation" where
  "scripted rs n = (if n < length rs then rs ! n else Inr ''ok'', Suc n)"

definition halves :: "nat \<Rightarrow> real" where
  "halves n = 1 / 2"

definition asciiLowerChar :: "char \<Rightarrow> char" where
  "asciiLowerChar c =
     (case map_of (zip ''ABCDEFGHIJKLMNOPQRSTUVWXYZ'' ''abcdefghijklmnopqrstuvwxyz'') c of
        Some l \<Rightarrow> l
      | None \<Rightarrow> c)"

definition asciiPlatform :: "real platform" where
  "asciiPlatform =
     \<lparr>toLowerCase = map asciiLowerChar, d_mul = (\<lambda>a b. a * b), d_add = (\<lambda>a b. a + b),
      Math_pow = (\<lambda>a b. a ^ nat \<lfloor>b\<rfloor>), d_num = of_int\<rparr>"


text \<open>
  \<open>mentions js m ks\<close>: the lower-cased message \<open>m\<close> contains one of the keywords \<open>ks\<close> as a
  contiguous substring. \<open>verdict\<close> is the category and the retryability of a classified
  error.
\<close>

definition mentions :: "'n platform \<Rightarrow> string \<Rightarrow> string list \<Rightarrow> bool" where
  "mentions js m ks = (\<exists>k \<in> set ks. \<exists>p q. toLowerCase js m = p @ k @ q)"

definition verdict :: "AppError \<Rightarrow> ErrorCategory \<times> bool" where
  "verdict a = (category a, retryable a)"

section \<open>Payments events (lib/stripe)\<close>

text \<open>
  \<open>StripeWebhookEvent\<close>, with the fields of \<open>event.data.object\<close> that the program reads.
  \<open>o_line_item_price\<close> is \<open>object.line_items?.data[0]?.price?.id\<close> and \<open>o_item_price\<close> is
  \<open>object.items?.data[0]?.price?.id\<close>; \<open>None\<close> is \<open>undefined\<close> or \<open>null\<close>.
\<close>

record CustomerDetails =
  det_email :: "string option"
  det_name :: "string option"

record StripeObject =
  o_id :: string
  o_customer :: string
  o_subscription :: string
  o_status :: string
  o_customer_details :: "CustomerDetails option"
  o_customer_email :: "string option"
  o_line_item_price :: "string option"
  o_item_price :: "string option"

record StripeWebhookEvent =
  e_id :: string
  e_type :: string
  e_object :: StripeObject
  e_created :: int

record CustomerData =
  cd_stripeCustomerId :: string
  cd_email :: "string option"
  cd_name :: "string option"

record SubscriptionData =
  sd_stripeSubscriptionId :: string
  sd_stripeCustomerId :: string
  sd_stripePriceId :: "string option"
  sd_status :: string

text \<open>JavaScript's \<open>a || b\<close> on optional strings: \<open>a\<close> when it is a non-empty string.\<close>

definition truthy :: "string option \<Rightarrow> bool" where
  "truthy a = (case a of None \<Rightarrow> False | Some s \<Rightarrow> s \<noteq> [])"

definition orElse :: "string option \<Rightarrow> string option \<Rightarrow> string option" where
  "orElse a b = (if truthy a then a else b)"

definition extractCustomerData :: "StripeWebhookEvent \<Rightarrow> CustomerData option" where
  "extractCustomerData event =
     (let obj = e_object event in
      if e_type event = ''checkout.session.completed'' then
        (let customer_email = (case o_customer_details obj of None \<Rightarrow> None | Some d \<Rightarrow> det_email d);
             customer_name = (case o_customer_details obj of None \<Rightarrow> None | Some d \<Rightarrow> det_name d)
         in Some \<lparr>cd_stripeCustomerId = o_customer obj,
                  cd_email = orElse customer_email (o_customer_email obj),
                  cd_name = orElse customer_name customer_name\<rparr>)
      else if e_type event = ''customer.subscription.created''
            \<or> e_type event = ''customer.subscription.updated''
            \<or> e_type event = ''customer.subscription.deleted'' then
        Some \<lparr>cd_stripeCustomerId = o_customer obj, cd_email = Some [], cd_name = Some []\<rparr>
      else None)"

definition extractSubscriptionData :: "StripeWebhookEvent \<Rightarrow> SubscriptionData option" where
  "extractSubscriptionData event =
     (let obj = e_object event in
      if e_type event = ''checkout.session.completed'' then
        Some \<lparr>sd_stripeSubscriptionId = o_subscription obj,
              sd_stripeCustomerId = o_customer obj,
              sd_stripePriceId = o_line_item_price obj,
              sd_status = ''active''\<rparr>
      else if e_type event = ''customer.subscription.created''
            \<or> e_type event = ''customer.subscription.updated''
            \<or> e_type event = ''customer.subscription.deleted'' then
        Some \<lparr>sd_stripeSubscriptionId = o_id obj,
              sd_stripeCustomerId = o_customer obj,
              sd_stripePriceId = o_item_price obj,
              sd_status = o_status obj\<rparr>
      else None)"

section \<open>The store (lib/database, scripts/001-initial-schema.sql)\<close>

text \<open>
  The rows of the four tables, without the Paddle columns and the timestamps;
  \<open>c_deleted\<close> is \<open>deleted_at IS NOT NULL\<close>. A table is the list of its rows, oldest first.
\<close>

datatype SubscriptionStatus = Active | Suspended | Canceled

datatype BillingProvider = Stripe | Paddle

datatype WebhookStatus = RECEIVED | PROCESSING | SUCCESS | ERROR

text \<open>
  The statuses \<open>updateWebhookStatus\<close> accepts, \<open>"processing" | "success" | "error"\<close>.
\<close>

datatype WebhookProgress = To_PROCESSING | To_SUCCESS | To_ERROR

fun statusOf :: "WebhookProgress \<Rightarrow> WebhookStatus" where
  "statusOf To_PROCESSING = PROCESSING"
| "statusOf To_SUCCESS = SUCCESS"
| "statusOf To_ERROR = ERROR"

record Customer =
  c_id :: nat
  c_enhance_customer_id :: string
  c_stripe_customer_id :: "string option"
  c_email :: string
  c_name :: "string option"
  c_deleted :: bool

record Subscription =
  s_id :: nat
  s_customer_id :: nat
  s_enhance_subscription_id :: string
  s_stripe_subscription_id :: "string option"
  s_enhance_plan_id :: string
  s_status :: SubscriptionStatus

record PlanMapping =
  pm_billing_provider :: BillingProvider
  pm_billing_plan_id :: string
  pm_enhance_plan_id :: string

record WebhookLog =
  wl_idempotency_key :: string
  wl_source :: string
  wl_event_type :: string
  wl_status :: WebhookStatus
  wl_payload_json :: StripeWebhookEvent
  wl_error_message :: "string option"

text \<open>
  Every call that writes to the store or acts on the provisioning system is recorded, in
  the order of the calls, with its arguments; a call is recorded when it is made,
  whether it then succeeds or throws.
\<close>

datatype call =
    Enh_createCustomer "string option" string string
  | Enh_createSubscription string string
  | Enh_suspendSubscription string
  | Enh_reactivateSubscription string
  | Enh_cancelSubscription string
  | Enh_changeSubscriptionPlan string string
  | Db_createCustomer string "string option" "string option" "string option"
  | Db_createSubscription nat string "string option" string SubscriptionStatus
  | Db_updateSubscriptionStatus nat SubscriptionStatus
  | Db_updateSubscriptionPlan nat string
  | Db_logWebhook string
  | Db_updateWebhookStatus string WebhookProgress "string option"

text \<open>
  The state the program runs in: the four tables and the two sequences behind the
  \<open>SERIAL\<close> keys; what the two remote systems answer (the payments system's customers
  and subscription statuses, the provisioning system's subscription statuses, and the
  identifier the provisioning system gives to the resource created by its \<open>n\<close>-th recorded
  call); the failures of the remote calls to come; and the record of the calls made.
  Each call to the store or to a remote system consumes the head of \<open>faults\<close>: \<open>Some m\<close>
  makes the call throw \<open>Error m\<close>, \<open>None\<close> or an empty list lets it through.
\<close>

record world =
  customers :: "Customer list"
  customers_seq :: nat
  subscriptions :: "Subscription list"
  subscriptions_seq :: nat
  plan_mappings :: "PlanMapping list"
  webhook_logs :: "WebhookLog list"
  stripe_customers :: "string \<Rightarrow> string option \<times> string option"
  stripe_subscriptions :: "string \<Rightarrow> string"
  enhance_subscriptions :: "string \<Rightarrow> SubscriptionStatus"
  enhance_new_id :: "nat \<Rightarrow> string"
  faults :: "string option list"
  calls :: "call list"

type_synonym 'a io = "(world, 'a) operation"

text \<open>
  Sequencing of operations that may throw: \<open>ret\<close> returns a value, \<open>throw\<close> throws,
  \<open>andThen m f\<close> is \<open>const x = await m; f(x)\<close>, and \<open>tryCatch m h\<close> is
  \<open>try { m } catch (e) { h(e) }\<close>.
\<close>

definition ret :: "'a \<Rightarrow> ('s, 'a) operation" where
  "ret x = (\<lambda>s. (Inr x, s))"

definition throw :: "error \<Rightarrow> ('s, 'a) operation" where
  "throw e = (\<lambda>s. (Inl e, s))"

definition andThen :: "('s, 'a) operation \<Rightarrow> ('a \<Rightarrow> ('s, 'b) operation) \<Rightarrow> ('s, 'b) operation" where
  "andThen m f = (\<lambda>s. case m s of (Inl e, s') \<Rightarrow> (Inl e, s') | (Inr x, s') \<Rightarrow> f x s')"

definition tryCatch :: "('s, 'a) operation \<Rightarrow> (error \<Rightarrow> ('s, 'a) operation) \<Rightarrow> ('s, 'a) operation" where
  "tryCatch m h = (\<lambda>s. case m s of (Inl e, s') \<Rightarrow> h e s' | (Inr x, s') \<Rightarrow> (Inr x, s'))"

definition record_call :: "call \<Rightarrow> unit io" where
  "record_call c = (\<lambda>w. (Inr (), w\<lparr>calls := calls w @ [c]\<rparr>))"

definition remote :: "unit io" where
  "remote = (\<lambda>w. case faults w of
                   [] \<Rightarrow> (Inr (), w)
                 | None # fs \<Rightarrow> (Inr (), w\<lparr>faults := fs\<rparr>)
                 | Some m # fs \<Rightarrow> (Inl (Error m), w\<lparr>faults := fs\<rparr>))"

subsection \<open>DatabaseService\<close>

text \<open>
  The messages of the errors the store raises when a row breaks a constraint of the
  schema. The constraints of a table are tried in the order: \<open>NOT NULL\<close>, \<open>CHECK\<close>,
  \<open>UNIQUE\<close> in the order of the columns, \<open>REFERENCES\<close>.
\<close>

definition dquote :: "string \<Rightarrow> string" where
  "dquote s = CHR 0x22 # s @ [CHR 0x22]"

definition uniqueViolation :: "string \<Rightarrow> error" where
  "uniqueViolation name = Error (''duplicate key value violates unique constraint '' @ dquote name)"

definition notNullViolation :: "string \<Rightarrow> string \<Rightarrow> error" where
  "notNullViolation column table =
     Error (''null value in column '' @ dquote column @ '' of relation '' @ dquote table
            @ '' violates not-null constraint'')"

definition checkViolation :: "string \<Rightarrow> string \<Rightarrow> error" where
  "checkViolation table name =
     Error (''new row for relation '' @ dquote table @ '' violates check constraint '' @ dquote name)"

definition foreignKeyViolation :: "string \<Rightarrow> string \<Rightarrow> error" where
  "foreignKeyViolation table name =
     Error (''insert or update on table '' @ dquote table
            @ '' violates foreign key constraint '' @ dquote name)"

text \<open>\<open>email LIKE '%@%.%'\<close>: a dot somewhere after an at sign.\<close>

definition emailShaped :: "string \<Rightarrow> bool" where
  "emailShaped e = (CHR ''.'' \<in> set (drop 1 (dropWhile (\<lambda>c. c \<noteq> CHR ''@'') e)))"

definition DatabaseService_findCustomerByStripeId :: "string \<Rightarrow> Customer option io" where
  "DatabaseService_findCustomerByStripeId stripeCustomerId =
     andThen remote (\<lambda>_ w.
       (Inr (find (\<lambda>c. c_stripe_customer_id c = Some stripeCustomerId \<and> \<not> c_deleted c)
               (customers w)), w))"

definition DatabaseService_createCustomer ::
    "string \<Rightarrow> string option \<Rightarrow> string option \<Rightarrow> string option \<Rightarrow> Customer io" where
  "DatabaseService_createCustomer enhance_customer_id stripe_customer_id email name =
     andThen (record_call (Db_createCustomer enhance_customer_id stripe_customer_id email name)) (\<lambda>_.
     andThen remote (\<lambda>_ w.
       (let w1 = w\<lparr>customers_seq := Suc (customers_seq w)\<rparr> in
        case email of
          None \<Rightarrow> (Inl (notNullViolation ''email'' ''customers''), w1)
        | Some em \<Rightarrow>
            if \<not> emailShaped em
            then (Inl (checkViolation ''customers'' ''customers_email_check''), w1)
            else if list_ex (\<lambda>c. c_enhance_customer_id c = enhance_customer_id) (customers w)
            then (Inl (uniqueViolation ''customers_enhance_customer_id_key''), w1)
            else if stripe_customer_id \<noteq> None
                  \<and> list_ex (\<lambda>c. c_stripe_customer_id c = stripe_customer_id) (customers w)
            then (Inl (uniqueViolation ''customers_stripe_customer_id_key''), w1)
            else if list_ex (\<lambda>c. c_email c = em) (customers w)
            then (Inl (uniqueViolation ''customers_email_key''), w1)
            else
              (let row = \<lparr>c_id = customers_seq w1, c_enhance_customer_id = enhance_customer_id,
                          c_stripe_customer_id = stripe_customer_id, c_email = em,
                          c_name = name, c_deleted = False\<rparr>
               in (Inr row, w1\<lparr>customers := customers w @ [row]\<rparr>)))))"

definition DatabaseService_findSubscriptionByStripeId :: "string \<Rightarrow> Subscription option io" where
  "DatabaseService_findSubscriptionByStripeId stripeSubscriptionId =
     andThen remote (\<lambda>_ w.
       (Inr (find (\<lambda>s. s_stripe_subscription_id s = Some stripeSubscriptionId)
               (subscriptions w)), w))"

definition DatabaseService_createSubscription ::
    "nat \<Rightarrow> string \<Rightarrow> string option \<Rightarrow> string \<Rightarrow> SubscriptionStatus \<Rightarrow> Subscription io" where
  "DatabaseService_createSubscription customer_id enhance_subscription_id stripe_subscription_id
       enhance_plan_id st =
     andThen (record_call (Db_createSubscription customer_id enhance_subscription_id
                 stripe_subscription_id enhance_plan_id st)) (\<lambda>_.
     andThen remote (\<lambda>_ w.
       (let w1 = w\<lparr>subscriptions_seq := Suc (subscriptions_seq w)\<rparr> in
        if list_ex (\<lambda>s. s_enhance_subscription_id s = enhance_subscription_id) (subscriptions w)
        then (Inl (uniqueViolation ''subscriptions_enhance_subscription_id_key''), w1)
        else if stripe_subscription_id \<noteq> None
              \<and> list_ex (\<lambda>s. s_stripe_subscription_id s = stripe_subscription_id) (subscriptions w)
        then (Inl (uniqueViolation ''subscriptions_stripe_subscription_id_key''), w1)
        else if \<not> list_ex (\<lambda>c. c_id c = customer_id) (customers w)
        then (Inl (foreignKeyViolation ''subscriptions'' ''subscriptions_customer_id_fkey''), w1)
        else
          (let row = \<lparr>s_id = subscriptions_seq w1, s_customer_id = customer_id,
                      s_enhance_subscription_id = enhance_subscription_id,
                      s_stripe_subscription_id = stripe_subscription_id,
                      s_enhance_plan_id = enhance_plan_id, s_status = st\<rparr>
           in (Inr row, w1\<lparr>subscriptions := subscriptions w @ [row]\<rparr>)))))"

definition DatabaseService_updateSubscriptionStatus :: "nat \<Rightarrow> SubscriptionStatus \<Rightarrow> unit io" where
  "DatabaseService_updateSubscriptionStatus ident st =
     andThen (record_call (Db_updateSubscriptionStatus ident st)) (\<lambda>_.
     andThen remote (\<lambda>_ w.
       (Inr (), w\<lparr>subscriptions :=
                   map (\<lambda>s. if s_id s = ident then s\<lparr>s_status := st\<rparr> else s) (subscriptions w)\<rparr>)))"

definition DatabaseService_findPlanMapping ::
    "BillingProvider \<Rightarrow> string option \<Rightarrow> PlanMapping option io" where
  "DatabaseService_findPlanMapping billingProvider billingPlanId =
     andThen remote (\<lambda>_ w.
       (Inr (find (\<lambda>m. pm_billing_provider m = billingProvider
                        \<and> Some (pm_billing_plan_id m) = billingPlanId) (plan_mappings w)), w))"

definition DatabaseService_logWebhook ::
    "string \<Rightarrow> string \<Rightarrow> string \<Rightarrow> StripeWebhookEvent \<Rightarrow> WebhookStatus option \<Rightarrow> WebhookLog io" where
  "DatabaseService_logWebhook idempotency_key source event_type payload_json st =
     andThen (record_call (Db_logWebhook idempotency_key)) (\<lambda>_.
     andThen remote (\<lambda>_ w.
       if list_ex (\<lambda>l. wl_idempotency_key l = idempotency_key) (webhook_logs w)
       then (Inl (uniqueViolation ''webhook_logs_idempotency_key_key''), w)
       else
         (let row = \<lparr>wl_idempotency_key = idempotency_key, wl_source = source,
                     wl_event_type = event_type,
                     wl_status = (case st of None \<Rightarrow> RECEIVED | Some v \<Rightarrow> v),
                     wl_payload_json = payload_json, wl_error_message = None\<rparr>
          in (Inr row, w\<lparr>webhook_logs := webhook_logs w @ [row]\<rparr>))))"

definition DatabaseService_updateWebhookStatus ::
    "string \<Rightarrow> WebhookProgress \<Rightarrow> string option \<Rightarrow> unit io" where
  "DatabaseService_updateWebhookStatus idempotencyKey st errorMessage =
     andThen (record_call (Db_updateWebhookStatus idempotencyKey st errorMessage)) (\<lambda>_.
     andThen remote (\<lambda>_ w.
       (Inr (), w\<lparr>webhook_logs :=
                   map (\<lambda>l. if wl_idempotency_key l = idempotencyKey
                             then l\<lparr>wl_status := statusOf st, wl_error_message := errorMessage\<rparr>
                             else l) (webhook_logs w)\<rparr>)))"

definition DatabaseService_webhookExists :: "string \<Rightarrow> bool io" where
  "DatabaseService_webhookExists idempotencyKey =
     andThen remote (\<lambda>_ w.
       (Inr (list_ex (\<lambda>l. wl_idempotency_key l = idempotencyKey) (webhook_logs w)), w))"

definition DatabaseService_updateSubscriptionPlan :: "nat \<Rightarrow> string \<Rightarrow> unit io" where
  "DatabaseService_updateSubscriptionPlan ident enhancePlanId =
     andThen (record_call (Db_updateSubscriptionPlan ident enhancePlanId)) (\<lambda>_.
     andThen remote (\<lambda>_ w.
       (Inr (), w\<lparr>subscriptions :=
                   map (\<lambda>s. if s_id s = ident then s\<lparr>s_enhance_plan_id := enhancePlanId\<rparr> else s)
                     (subscriptions w)\<rparr>)))"

subsection \<open>StripeService and EnhanceService: the remote calls\<close>

text \<open>
  A remote call is described by its outcome: it throws when the next entry of \<open>faults\<close>
  says so, and otherwise answers from the state. \<open>EnhanceService.makeRequest\<close>, with
  its own three attempts, is inside that outcome.
\<close>

definition StripeService_getCustomer :: "string \<Rightarrow> (string option \<times> string option) io" where
  "StripeService_getCustomer customerId =
     andThen remote (\<lambda>_ w. (Inr (stripe_customers w customerId), w))"

definition StripeService_getSubscription :: "string \<Rightarrow> string io" where
  "StripeService_getSubscription subscriptionId =
     andThen remote (\<lambda>_ w. (Inr (stripe_subscriptions w subscriptionId), w))"

definition EnhanceService_createCustomer :: "string option \<Rightarrow> string \<Rightarrow> string \<Rightarrow> string io" where
  "EnhanceService_createCustomer email name organizationName =
     andThen (record_call (Enh_createCustomer email name organizationName)) (\<lambda>_.
     andThen remote (\<lambda>_ w. (Inr (enhance_new_id w (length (calls w))), w)))"

definition EnhanceService_createSubscription :: "string \<Rightarrow> string \<Rightarrow> string io" where
  "EnhanceService_createSubscription customerId planId =
     andThen (record_call (Enh_createSubscription customerId planId)) (\<lambda>_.
     andThen remote (\<lambda>_ w. (Inr (enhance_new_id w (length (calls w))), w)))"

definition EnhanceService_suspendSubscription :: "string \<Rightarrow> unit io" where
  "EnhanceService_suspendSubscription subscriptionId =
     andThen (record_call (Enh_suspendSubscription subscriptionId)) (\<lambda>_. remote)"

definition EnhanceService_reactivateSubscription :: "string \<Rightarrow> unit io" where
  "EnhanceService_reactivateSubscription subscriptionId =
     andThen (record_call (Enh_reactivateSubscription subscriptionId)) (\<lambda>_. remote)"

definition EnhanceService_cancelSubscription :: "string \<Rightarrow> unit io" where
  "EnhanceService_cancelSubscription subscriptionId =
     andThen (record_call (Enh_cancelSubscription subscriptionId)) (\<lambda>_. remote)"

definition EnhanceService_getSubscription :: "string \<Rightarrow> SubscriptionStatus io" where
  "EnhanceService_getSubscription subscriptionId =
     andThen remote (\<lambda>_ w. (Inr (enhance_subscriptions w subscriptionId), w))"

definition EnhanceService_changeSubscriptionPlan :: "string \<Rightarrow> string \<Rightarrow> unit io" where
  "EnhanceService_changeSubscriptionPlan subscriptionId newPlanId =
     andThen (record_call (Enh_changeSubscriptionPlan subscriptionId newPlanId)) (\<lambda>_. remote)"

section \<open>SubscriptionManager (lib/subscription-manager)\<close>

text \<open>
  \<open>syncSingleSubscription\<close>, the step the sweep applies to each subscription. The first
  \<open>switch\<close> yields the target status, or \<open>None\<close> where its default branch returns.
\<close>

definition syncSingleSubscription :: "string \<Rightarrow> unit io" where
  "syncSingleSubscription stripeSubscriptionId =
     andThen (DatabaseService_findSubscriptionByStripeId stripeSubscriptionId) (\<lambda>found.
     case found of
       None \<Rightarrow> throw (Error (''Subscription not found in database: '' @ stripeSubscriptionId))
     | Some dbSubscription \<Rightarrow>
         andThen (StripeService_getSubscription stripeSubscriptionId) (\<lambda>stripeStatus.
         andThen (EnhanceService_getSubscription (s_enhance_subscription_id dbSubscription)) (\<lambda>enhanceStatus.
         (case (if stripeStatus = ''active'' then Some Active
                else if stripeStatus = ''past_due'' \<or> stripeStatus = ''unpaid'' then Some Suspended
                else if stripeStatus = ''canceled'' \<or> stripeStatus = ''incomplete_expired''
                then Some Canceled
                else None) of
            None \<Rightarrow> ret ()
          | Some targetStatus \<Rightarrow>
              andThen
                (if enhanceStatus \<noteq> targetStatus then
                   (case targetStatus of
                      Active \<Rightarrow>
                        EnhanceService_reactivateSubscription (s_enhance_subscription_id dbSubscription)
                    | Suspended \<Rightarrow>
                        EnhanceService_suspendSubscription (s_enhance_subscription_id dbSubscription)
                    | Canceled \<Rightarrow>
                        EnhanceService_cancelSubscription (s_enhance_subscription_id dbSubscription))
                 else ret ()) (\<lambda>_.
              if s_status dbSubscription \<noteq> targetStatus
              then DatabaseService_updateSubscriptionStatus (s_id dbSubscription) targetStatus
              else ret ())))))"

definition changePlan :: "string \<Rightarrow> string \<Rightarrow> unit io" where
  "changePlan stripeSubscriptionId newStripePriceId =
     andThen (DatabaseService_findSubscriptionByStripeId stripeSubscriptionId) (\<lambda>found.
     case found of
       None \<Rightarrow> throw (Error (''Subscription not found: '' @ stripeSubscriptionId))
     | Some dbSubscription \<Rightarrow>
         andThen (DatabaseService_findPlanMapping Stripe (Some newStripePriceId)) (\<lambda>mapping.
         case mapping of
           None \<Rightarrow> throw (Error (''No plan mapping found for Stripe price: '' @ newStripePriceId))
         | Some newPlanMapping \<Rightarrow>
             andThen (EnhanceService_changeSubscriptionPlan
                        (s_enhance_subscription_id dbSubscription)
                        (pm_enhance_plan_id newPlanMapping)) (\<lambda>_.
             DatabaseService_updateSubscriptionPlan (s_id dbSubscription)
               (pm_enhance_plan_id newPlanMapping))))"

section \<open>The webhook handler (api/webhook)\<close>

text \<open>\<open>`${x}`\<close> for an optional string: \<open>undefined\<close> is rendered as the word.\<close>

definition render :: "string option \<Rightarrow> string" where
  "render a = (case a of None \<Rightarrow> ''undefined'' | Some s \<Rightarrow> s)"

subsection \<open>handleCheckoutCompleted\<close>

text \<open>
  The operation given to \<open>withRetry\<close>, in two parts: \<open>checkout_customer\<close> finds the
  customer or creates it in the provisioning system and in the store;
  \<open>checkout_subscription\<close> resolves the plan mapping and creates the subscription.
  \<open>email.split("@")\<close> on \<open>null\<close> throws a \<open>TypeError\<close>.
\<close>

definition splitNullMessage :: string where
  "splitNullMessage = ''Cannot read properties of null (reading 'split')''"

definition checkout_customer :: "CustomerData \<Rightarrow> Customer io" where
  "checkout_customer customerData =
     andThen (DatabaseService_findCustomerByStripeId (cd_stripeCustomerId customerData)) (\<lambda>found.
     case found of
       Some customer \<Rightarrow> ret customer
     | None \<Rightarrow>
         andThen
           (if \<not> truthy (cd_email customerData) then
              andThen (StripeService_getCustomer (cd_stripeCustomerId customerData)) (\<lambda>stripeCustomer.
              ret (customerData\<lparr>cd_email := fst stripeCustomer,
                                cd_name := orElse (snd stripeCustomer) None\<rparr>))
            else ret customerData) (\<lambda>customerData.
         andThen
           (if truthy (cd_name customerData) then ret (render (cd_name customerData))
            else (case cd_email customerData of
                    None \<Rightarrow> throw (Error splitNullMessage)
                  | Some email \<Rightarrow> ret (takeWhile (\<lambda>c. c \<noteq> CHR ''@'') email))) (\<lambda>displayName.
         andThen (EnhanceService_createCustomer (cd_email customerData) displayName displayName)
           (\<lambda>enhanceCustomerId.
         DatabaseService_createCustomer enhanceCustomerId
           (Some (cd_stripeCustomerId customerData)) (cd_email customerData)
           (cd_name customerData)))))"

definition checkout_subscription :: "SubscriptionData \<Rightarrow> Customer \<Rightarrow> unit io" where
  "checkout_subscription subscriptionData customer =
     andThen (DatabaseService_findPlanMapping Stripe (sd_stripePriceId subscriptionData)) (\<lambda>found.
     case found of
       None \<Rightarrow>
         throw (AppErr (newAppError3
           (''No plan mapping found for Stripe price: '' @ render (sd_stripePriceId subscriptionData))
           BUSINESS_LOGIC HIGH))
     | Some planMapping \<Rightarrow>
         andThen (EnhanceService_createSubscription (c_enhance_customer_id customer)
                    (pm_enhance_plan_id planMapping)) (\<lambda>enhanceSubscriptionId.
         andThen (DatabaseService_createSubscription (c_id customer) enhanceSubscriptionId
                    (Some (sd_stripeSubscriptionId subscriptionData))
                    (pm_enhance_plan_id planMapping) Active) (\<lambda>_.
         ret ())))"

definition handleCheckoutCompleted_operation :: "StripeWebhookEvent \<Rightarrow> unit io" where
  "handleCheckoutCompleted_operation event =
     (case (extractCustomerData event, extractSubscriptionData event) of
        (Some customerData, Some subscriptionData) \<Rightarrow>
          andThen (checkout_customer customerData) (checkout_subscription subscriptionData)
      | _ \<Rightarrow>
          throw (AppErr (newAppError3
            ''Failed to extract customer or subscription data from checkout event''
            BUSINESS_LOGIC HIGH)))"

definition handleCheckoutCompleted ::
    "'n platform \<Rightarrow> StripeWebhookEvent \<Rightarrow> ((world, 'n) runtime, unit) operation" where
  "handleCheckoutCompleted js event = withRetry js (handleCheckoutCompleted_operation event) 3 (d_num js 2000)"

subsection \<open>handleSubscriptionDeleted\<close>

definition handleSubscriptionDeleted_operation :: "StripeWebhookEvent \<Rightarrow> unit io" where
  "handleSubscriptionDeleted_operation event =
     (case extractSubscriptionData event of
        None \<Rightarrow>
          throw (AppErr (newAppError3 ''Failed to extract subscription data from deletion event''
            BUSINESS_LOGIC HIGH))
      | Some subscriptionData \<Rightarrow>
          andThen (DatabaseService_findSubscriptionByStripeId
                     (sd_stripeSubscriptionId subscriptionData)) (\<lambda>found.
          case found of
            None \<Rightarrow> ret ()
          | Some subscription \<Rightarrow>
              andThen (EnhanceService_suspendSubscription (s_enhance_subscription_id subscription))
                (\<lambda>_.
              DatabaseService_updateSubscriptionStatus (s_id subscription) Canceled)))"

definition handleSubscriptionDeleted ::
    "'n platform \<Rightarrow> StripeWebhookEvent \<Rightarrow> ((world, 'n) runtime, unit) operation" where
  "handleSubscriptionDeleted js event = withRetry js (handleSubscriptionDeleted_operation event) 3 (d_num js 2000)"

subsection \<open>handleSubscriptionUpdated\<close>

text \<open>
  The \<open>switch\<close> assigns \<open>newStatus\<close> and awaits the provisioning call of its branch; its
  default branch returns from the operation, which is the value \<open>None\<close> here.
\<close>

definition handleSubscriptionUpdated_operation :: "StripeWebhookEvent \<Rightarrow> unit io" where
  "handleSubscriptionUpdated_operation event =
     (case extractSubscriptionData event of
        None \<Rightarrow>
          throw (AppErr (newAppError3 ''Failed to extract subscription data from update event''
            BUSINESS_LOGIC HIGH))
      | Some subscriptionData \<Rightarrow>
          andThen (DatabaseService_findSubscriptionByStripeId
                     (sd_stripeSubscriptionId subscriptionData)) (\<lambda>found.
          case found of
            None \<Rightarrow> ret ()
          | Some subscription \<Rightarrow>
              andThen
                (if sd_status subscriptionData = ''active'' then
                   andThen (EnhanceService_reactivateSubscription
                              (s_enhance_subscription_id subscription)) (\<lambda>_. ret (Some Active))
                 else if sd_status subscriptionData = ''past_due''
                       \<or> sd_status subscriptionData = ''unpaid'' then
                   andThen (EnhanceService_suspendSubscription
                              (s_enhance_subscription_id subscription)) (\<lambda>_. ret (Some Suspended))
                 else if sd_status subscriptionData = ''canceled''
                       \<or> sd_status subscriptionData = ''incomplete_expired'' then
                   andThen (EnhanceService_suspendSubscription
                              (s_enhance_subscription_id subscription)) (\<lambda>_. ret (Some Canceled))
                 else ret None) (\<lambda>switched.
              case switched of
                None \<Rightarrow> ret ()
              | Some newStatus \<Rightarrow>
                  DatabaseService_updateSubscriptionStatus (s_id subscription) newStatus)))"

definition handleSubscriptionUpdated ::
    "'n platform \<Rightarrow> StripeWebhookEvent \<Rightarrow> ((world, 'n) runtime, unit) operation" where
  "handleSubscriptionUpdated js event = withRetry js (handleSubscriptionUpdated_operation event) 3 (d_num js 2000)"

subsection \<open>ErrorHandler.handleWebhookError\<close>

fun categoryName :: "ErrorCategory \<Rightarrow> string" where
  "categoryName VALIDATION = ''validation''"
| "categoryName AUTHENTICATION = ''authentication''"
| "categoryName EXTERNAL_API = ''external_api''"
| "categoryName DATABASE = ''database''"
| "categoryName BUSINESS_LOGIC = ''business_logic''"
| "categoryName SYSTEM = ''system''"

definition handleWebhookError :: "'n platform \<Rightarrow> error \<Rightarrow> string \<Rightarrow> string \<Rightarrow> unit io" where
  "handleWebhookError js err idempotencyKey eventType =
     (let appError = categorizeError js err [(''webhookId'', JStr idempotencyKey)] in
      DatabaseService_updateWebhookStatus idempotencyKey To_ERROR
        (Some (categoryName (category appError) @ '': '' @ message appError)))"

subsection \<open>POST\<close>

text \<open>
  The request carries its body and its \<open>stripe-signature\<close> header. The payments
  library's \<open>constructEvent\<close> (under the configured secret) is a parameter: it gives the
  event, or the text of the error it throws. The response is its status code and its
  JSON body, \<open>{received: true, message?}\<close> or \<open>{error, message, retryable}\<close>.
\<close>

record NextRequest =
  req_body :: string
  req_signature :: "string option"

datatype ResponseBody = Received "string option" | Failed string bool

record NextResponse =
  resp_status :: nat
  resp_json :: ResponseBody

definition StripeService_verifyWebhookSignature ::
    "(string \<Rightarrow> string \<Rightarrow> string + StripeWebhookEvent) \<Rightarrow> string \<Rightarrow> string
      \<Rightarrow> error + StripeWebhookEvent" where
  "StripeService_verifyWebhookSignature constructEvent payload signature =
     (case constructEvent payload signature of
        Inl err \<Rightarrow> Inl (Error (''Webhook signature verification failed: '' @ err))
      | Inr event \<Rightarrow> Inr event)"

definition lift :: "'a io \<Rightarrow> ((world, 'n) runtime, 'a) operation" where
  "lift m = (\<lambda>rt. case m (rt_state rt) of (r, w') \<Rightarrow> (r, rt\<lparr>rt_state := w'\<rparr>))"

definition dispatch ::
    "'n platform \<Rightarrow> StripeWebhookEvent \<Rightarrow> ((world, 'n) runtime, unit) operation" where
  "dispatch js event =
     (if e_type event = ''checkout.session.completed'' then handleCheckoutCompleted js event
      else if e_type event = ''customer.subscription.deleted''
      then handleSubscriptionDeleted js event
      else if e_type event = ''customer.subscription.updated''
      then handleSubscriptionUpdated js event
      else ret ())"

definition POST_try :: "'n platform \<Rightarrow> (string \<Rightarrow> string \<Rightarrow> string + StripeWebhookEvent)
    \<Rightarrow> string \<Rightarrow> NextRequest \<Rightarrow> ((world, 'n) runtime, NextResponse) operation" where
  "POST_try js constructEvent requestId request =
     (if \<not> truthy (req_signature request) then
        throw (AppErr (newAppError3 ''Missing stripe-signature header'' VALIDATION LOW))
      else
        (case StripeService_verifyWebhookSignature constructEvent (req_body request)
                (render (req_signature request)) of
           Inl err \<Rightarrow>
             throw (AppErr (newAppError3
               (''Webhook signature verification failed: Error: '' @ error_message err)
               AUTHENTICATION HIGH))
         | Inr event \<Rightarrow>
             (let idempotencyKey = ''stripe_'' @ e_id event in
              andThen (lift (DatabaseService_webhookExists idempotencyKey)) (\<lambda>seen.
              if seen then
                ret \<lparr>resp_status = 200, resp_json = Received (Some ''Event already processed'')\<rparr>
              else
                andThen (withRetry js (DatabaseService_logWebhook idempotencyKey ''stripe''
                                         (e_type event) event (Some RECEIVED))
                           3 (d_num js 1000)) (\<lambda>_.
                andThen (lift (DatabaseService_updateWebhookStatus idempotencyKey To_PROCESSING None))
                  (\<lambda>_.
                tryCatch
                  (andThen (dispatch js event) (\<lambda>_.
                   andThen (lift (DatabaseService_updateWebhookStatus idempotencyKey To_SUCCESS None))
                     (\<lambda>_.
                   ret \<lparr>resp_status = 200, resp_json = Received None\<rparr>)))
                  (\<lambda>processingError.
                     andThen (lift (handleWebhookError js processingError idempotencyKey
                                      (e_type event))) (\<lambda>_.
                     throw processingError))))))))"

definition POST :: "'n platform \<Rightarrow> (string \<Rightarrow> string \<Rightarrow> string + StripeWebhookEvent)
    \<Rightarrow> string \<Rightarrow> NextRequest \<Rightarrow> (world, 'n) runtime
    \<Rightarrow> NextResponse \<times> (world, 'n) runtime" where
  "POST js constructEvent requestId request rt =
     (case POST_try js constructEvent requestId request rt of
        (Inr response, rt') \<Rightarrow> (response, rt')
      | (Inl err, rt') \<Rightarrow>
          (let appError = categorizeError js err [(''requestId'', JStr requestId)] in
           (\<lparr>resp_status = (if category appError = VALIDATION then 400 else 500),
             resp_json = Failed (message appError) (retryable appError)\<rparr>, rt')))"

section \<open>Specification-level definitions and example data\<close>

text \<open>
  The status mapping table of section 4.4 of the specification, as the specification
  words it: the target internal status of a payments status, \<open>None\<close> for "anything else".
\<close>

definition tableTarget :: "string \<Rightarrow> SubscriptionStatus option" where
  "tableTarget s =
     (if s = ''active'' then Some Active
      else if s \<in> {''past_due'', ''unpaid''} then Some Suspended
      else if s \<in> {''canceled'', ''incomplete_expired''} then Some Canceled
      else None)"

text \<open>The outcome the next remote call will have: \<open>None\<close> when it goes through.\<close>

definition nextFault :: "world \<Rightarrow> string option" where
  "nextFault w = (case faults w of [] \<Rightarrow> None | f # fs \<Rightarrow> f)"

definition ledgerKeys :: "world \<Rightarrow> string list" where
  "ledgerKeys w = map wl_idempotency_key (webhook_logs w)"

text \<open>
  Example data: a customer with one active subscription, the plan mappings the schema
  script inserts, an empty ledger, a payments system that reports every subscription
  with the status \<open>st\<close> and a provisioning system that reports every subscription active.
\<close>

definition always :: "'b \<Rightarrow> 'a \<Rightarrow> 'b" where
  "always v x = v"

definition customer1 :: Customer where
  "customer1 = \<lparr>c_id = 1, c_enhance_customer_id = ''enh_cus_1'',
                 c_stripe_customer_id = Some ''cus_1'', c_email = ''ann@example.com'',
                 c_name = Some ''Ann'', c_deleted = False\<rparr>"

definition subscription1 :: Subscription where
  "subscription1 = \<lparr>s_id = 1, s_customer_id = 1, s_enhance_subscription_id = ''enh_sub_1'',
                     s_stripe_subscription_id = Some ''sub_1'',
                     s_enhance_plan_id = ''pro-hosting-plan'', s_status = Active\<rparr>"

definition seedMappings :: "PlanMapping list" where
  "seedMappings =
     [\<lparr>pm_billing_provider = Stripe, pm_billing_plan_id = ''price_basic_monthly'',
       pm_enhance_plan_id = ''basic-hosting-plan''\<rparr>,
      \<lparr>pm_billing_provider = Stripe, pm_billing_plan_id = ''price_pro_monthly'',
       pm_enhance_plan_id = ''pro-hosting-plan''\<rparr>,
      \<lparr>pm_billing_provider = Stripe, pm_billing_plan_id = ''price_enterprise_monthly'',
       pm_enhance_plan_id = ''enterprise-hosting-plan''\<rparr>]"

definition exampleWorld :: "string \<Rightarrow> world" where
  "exampleWorld st =
     \<lparr>customers = [customer1], customers_seq = 1,
      subscriptions = [subscription1], subscriptions_seq = 1,
      plan_mappings = seedMappings, webhook_logs = [],
      stripe_customers = always (Some ''ann@example.com'', Some ''Ann''),
      stripe_subscriptions = always st,
      enhance_subscriptions = always Active,
      enhance_new_id = always ''enh_new'',
      faults = [], calls = []\<rparr>"

definition exampleObject :: "string \<Rightarrow> StripeObject" where
  "exampleObject st =
     \<lparr>o_id = ''sub_1'', o_customer = ''cus_1'', o_subscription = ''sub_1'', o_status = st,
      o_customer_details = None, o_customer_email = None,
      o_line_item_price = Some ''price_gold'', o_item_price = Some ''price_gold''\<rparr>"

definition exampleEvent :: "string \<Rightarrow> string \<Rightarrow> StripeWebhookEvent" where
  "exampleEvent ty st =
     \<lparr>e_id = ''evt_1'', e_type = ty, e_object = exampleObject st, e_created = 0\<rparr>"

definition exampleLog :: "WebhookStatus \<Rightarrow> WebhookLog" where
  "exampleLog st =
     \<lparr>wl_idempotency_key = ''stripe_evt_1'', wl_source = ''stripe'',
      wl_event_type = ''customer.subscription.updated'', wl_status = st,
      wl_payload_json = exampleEvent ''customer.subscription.updated'' ''past_due'',
      wl_error_message = None\<rparr>"

text \<open>An event library that accepts every signature and reads the event \<open>ev\<close>.\<close>

definition accepting :: "StripeWebhookEvent \<Rightarrow> string \<Rightarrow> string \<Rightarrow> string + StripeWebhookEvent" where
  "accepting ev payload signature = Inr ev"

definition exampleRequest :: NextRequest where
  "exampleRequest = \<lparr>req_body = ''{}'', req_signature = Some ''t=1,v1=abc''\<rparr>"

definition ledgerWorld :: "WebhookStatus \<Rightarrow> world" where
  "ledgerWorld st = (exampleWorld ''active'')\<lparr>webhook_logs := [exampleLog st]\<rparr>"

text \<open>The internal status stored for the subscription with a payments identifier.\<close>

definition storedStatus :: "string \<Rightarrow> world \<Rightarrow> SubscriptionStatus option" where
  "storedStatus sid w =
     map_option s_status (find (\<lambda>s. s_stripe_subscription_id s = Some sid) (subscriptions w))"

text \<open>An update event for a subscription the store does not know.\<close>

definition strangerEvent :: StripeWebhookEvent where
  "strangerEvent = (exampleEvent ''customer.subscription.updated'' ''past_due'')
     \<lparr>e_object := (exampleObject ''past_due'')\<lparr>o_id := ''sub_9''\<rparr>\<rparr>"

text \<open>
  \<open>ledgerKept w w'\<close>: from \<open>w\<close> to \<open>w'\<close> the keys of the ledger and the plan-mapping table
  are the same, and no failure is pending in \<open>w'\<close> if none was in \<open>w\<close>. \<open>keeps R m\<close>: every
  run of the operation \<open>m\<close> relates the state before to the state after by \<open>R\<close>.
\<close>

definition ledgerKept :: "world \<Rightarrow> world \<Rightarrow> bool" where
  "ledgerKept w w' =
     (ledgerKeys w' = ledgerKeys w \<and> plan_mappings w' = plan_mappings w
      \<and> (faults w = [] \<longrightarrow> faults w' = []))"

definition keeps :: "('s \<Rightarrow> 's \<Rightarrow> bool) \<Rightarrow> ('s, 'a) operation \<Rightarrow> bool" where
  "keeps R m = (\<forall>s. R s (snd (m s)))"

definition onState ::
    "(world \<Rightarrow> world \<Rightarrow> bool) \<Rightarrow> (world, 'n) runtime \<Rightarrow> (world, 'n) runtime \<Rightarrow> bool" where
  "onState R rt rt' = R (rt_state rt) (rt_state rt')"

text \<open>
  The part of \<open>POST\<close> that runs once the ledger has accepted the entry with key \<open>k\<close>:
  the move to processing, the dispatch, and the move to success or to error.
\<close>

definition processing ::
    "'n platform \<Rightarrow> string \<Rightarrow> StripeWebhookEvent \<Rightarrow> ((world, 'n) runtime, NextResponse) operation" where
  "processing js k event =
     andThen (lift (DatabaseService_updateWebhookStatus k To_PROCESSING None))
       (\<lambda>_.
     tryCatch
       (andThen (dispatch js event) (\<lambda>_.
        andThen (lift (DatabaseService_updateWebhookStatus k To_SUCCESS None))
          (\<lambda>_.
        ret \<lparr>resp_status = 200, resp_json = Received None\<rparr>)))
       (\<lambda>processingError.
          andThen (lift (handleWebhookError js processingError k (e_type event))) (\<lambda>_.
          throw processingError)))"

text \<open>
  A checkout event of a customer the store does not know yet, for a price that has no
  plan mapping.
\<close>

definition newBuyerEvent :: StripeWebhookEvent where
  "newBuyerEvent =
     \<lparr>e_id = ''evt_2'', e_type = ''checkout.session.completed'',
      e_object = \<lparr>o_id = ''cs_2'', o_customer = ''cus_2'', o_subscription = ''sub_2'',
                  o_status = ''complete'',
                  o_customer_details = Some \<lparr>det_email = Some ''bob@example.com'',
                                             det_name = Some ''Bob''\<rparr>,
                  o_customer_email = None,
                  o_line_item_price = Some ''price_gold'', o_item_price = None\<rparr>,
      e_created = 0\<rparr>"

text \<open>The twelve keywords of the classifier.\<close>

definition classifierKeywords :: "string list" where
  "classifierKeywords = [''fetch'', ''network'', ''timeout'', ''database'', ''sql'', ''connection'',
     ''unauthorized'', ''forbidden'', ''token'', ''validation'', ''invalid'',
     ''required'']"

section \<open>Running operations\<close>

lemmas io_defs = andThen_def ret_def throw_def tryCatch_def remote_def record_call_def lift_def

declare retryLoop.simps [simp del]

declare categorizeError.simps(2) [simp del]

lemma withRetry_first_success:
  assumes "operation (rt_state rt) = (Inr v, s')" "1 \<le> maxRetries"
  shows "withRetry js operation maxRetries baseDelay rt = (Inr v, rt\<lparr>rt_state := s'\<rparr>)"
  using assms by (simp add: withRetry_def retryLoop.simps)

lemma withRetry_first_fatal:
  assumes "operation (rt_state rt) = (Inl e, s')" "\<not> retryable (categorizeError js e [])"
    "1 \<le> maxRetries"
  shows "withRetry js operation maxRetries baseDelay rt
           = (Inl (AppErr (categorizeError js e [])), rt\<lparr>rt_state := s'\<rparr>)"
  using assms by (simp add: withRetry_def retryLoop.simps)

lemma remote_ok: "nextFault w = None \<Longrightarrow> remote w = (Inr (), w\<lparr>faults := tl (faults w)\<rparr>)"
  by (cases "faults w") (auto simp: remote_def nextFault_def)

lemma remote_quiet: "faults w = [] \<Longrightarrow> remote w = (Inr (), w)"
  by (simp add: remote_def)

lemma startsWith_iff: "startsWith s k \<longleftrightarrow> (\<exists>q. s = k @ q)"
  by (induction s k rule: startsWith.induct) auto

lemma includes_str_iff: "includes_str s k \<longleftrightarrow> (\<exists>p q. s = p @ k @ q)"
proof (induction s)
  case Nil
  then show ?case by simp
next
  case (Cons c cs)
  have "(\<exists>p q. c # cs = p @ k @ q) \<longleftrightarrow> (\<exists>q. c # cs = k @ q) \<or> (\<exists>p q. cs = p @ k @ q)"
  proof
    assume "\<exists>p q. c # cs = p @ k @ q"
    then obtain p q where e: "c # cs = p @ k @ q" by blast
    show "(\<exists>q. c # cs = k @ q) \<or> (\<exists>p q. cs = p @ k @ q)"
    proof (cases p)
      case Nil
      with e show ?thesis by auto
    next
      case (Cons a p')
      with e have "cs = p' @ k @ q" by simp
      then show ?thesis by blast
    qed
  next
    assume "(\<exists>q. c # cs = k @ q) \<or> (\<exists>p q. cs = p @ k @ q)"
    then show "\<exists>p q. c # cs = p @ k @ q"
    proof
      assume "\<exists>q. c # cs = k @ q"
      then obtain q where "c # cs = [] @ k @ q" by auto
      then show ?thesis by blast
    next
      assume "\<exists>p q. cs = p @ k @ q"
      then obtain p q where "c # cs = (c # p) @ k @ q" by auto
      then show ?thesis by blast
    qed
  qed
  with Cons show ?case by (simp add: startsWith_iff)
qed

lemma mentions_code:
  "mentions js m ks = list_ex (includes_str (toLowerCase js m)) ks"
  by (simp add: mentions_def list_ex_iff includes_str_iff)

lemma ascii_lower: "toLowerCase asciiPlatform m = map asciiLowerChar m"
  by (simp add: asciiPlatform_def)


section \<open>Properties of the retry executor\<close>










lemma delaysFrom_shorter:
  "j \<le> k \<Longrightarrow> i < j \<Longrightarrow> delaysFrom js b a rt j ! i = delaysFrom js b a rt k ! i"
  by (simp add: delaysFrom_def)




lemma scripted_iterate: "iterate_op (scripted rs) i n = n + i"
  by (induction i arbitrary: n) (simp_all add: scripted_def)








text \<open>
  With \<open>maxRetries < 1\<close> the loop body never runs: the operation is not invoked, and the
  \<open>throw\<close> after the loop reads the message of an unassigned \<open>lastError\<close>.
\<close>

lemma withRetry_no_attempts:
  "maxRetries < 1 \<Longrightarrow>
     withRetry js operation maxRetries baseDelay rt = (Inl (Error undefinedMessage), rt)"
  by (simp add: withRetry_def retryLoop.simps)

section \<open>Properties of the error classifier\<close>

text \<open>
  Claim C6, as the code has it. An \<open>AppError\<close> is returned as it is. For any other error
  the category and the retryability come from the keywords contained in the lower-cased
  message alone, but the groups of keywords are tried in a fixed order and the first
  group that matches decides: fetch, network, timeout give ExternalApi, retryable;
  otherwise database, sql, connection give Database, retryable; otherwise unauthorized,
  forbidden, token give Authentication, not retryable; otherwise validation, invalid,
  required give Validation, not retryable; a message with none of the keywords gives
  System, not retryable. The message of the error is kept. The lower-casing is the one
  of the platform, whatever it is.
\<close>

theorem categorizeError_by_keywords:
  "categorizeError js (AppErr a) ctx = a
   \<and> (mentions js m [''fetch'', ''network'', ''timeout'']
        \<longrightarrow> verdict (categorizeError js (Error m) ctx) = (EXTERNAL_API, True))
   \<and> (\<not> mentions js m [''fetch'', ''network'', ''timeout'']
        \<and> mentions js m [''database'', ''sql'', ''connection'']
        \<longrightarrow> verdict (categorizeError js (Error m) ctx) = (DATABASE, True))
   \<and> (\<not> mentions js m [''fetch'', ''network'', ''timeout'']
        \<and> \<not> mentions js m [''database'', ''sql'', ''connection'']
        \<and> mentions js m [''unauthorized'', ''forbidden'', ''token'']
        \<longrightarrow> verdict (categorizeError js (Error m) ctx) = (AUTHENTICATION, False))
   \<and> (\<not> mentions js m [''fetch'', ''network'', ''timeout'']
        \<and> \<not> mentions js m [''database'', ''sql'', ''connection'']
        \<and> \<not> mentions js m [''unauthorized'', ''forbidden'', ''token'']
        \<and> mentions js m [''validation'', ''invalid'', ''required'']
        \<longrightarrow> verdict (categorizeError js (Error m) ctx) = (VALIDATION, False))
   \<and> (\<not> mentions js m [''fetch'', ''network'', ''timeout'', ''database'', ''sql'', ''connection'',
                       ''unauthorized'', ''forbidden'', ''token'',
                       ''validation'', ''invalid'', ''required'']
        \<longrightarrow> verdict (categorizeError js (Error m) ctx) = (SYSTEM, False))
   \<and> message (categorizeError js (Error m) ctx) = m"
  by (simp add: categorizeError.simps(2) mentions_code verdict_def newAppError_def Let_def)

lemma mentions_examples:
  "mentions asciiPlatform ''Request Timeout'' [''fetch'', ''network'', ''timeout'']"
  "\<not> mentions asciiPlatform ''SQL syntax'' [''fetch'', ''network'', ''timeout'']"
  "mentions asciiPlatform ''SQL syntax'' [''database'', ''sql'', ''connection'']"
  "\<not> mentions asciiPlatform ''Forbidden'' [''fetch'', ''network'', ''timeout'']"
  "\<not> mentions asciiPlatform ''Forbidden'' [''database'', ''sql'', ''connection'']"
  "mentions asciiPlatform ''Forbidden'' [''unauthorized'', ''forbidden'', ''token'']"
  "\<not> mentions asciiPlatform ''email is Required'' [''fetch'', ''network'', ''timeout'']"
  "\<not> mentions asciiPlatform ''email is Required'' [''database'', ''sql'', ''connection'']"
  "\<not> mentions asciiPlatform ''email is Required'' [''unauthorized'', ''forbidden'', ''token'']"
  "mentions asciiPlatform ''email is Required'' [''validation'', ''invalid'', ''required'']"
  "\<not> mentions asciiPlatform ''boom''
       [''fetch'', ''network'', ''timeout'', ''database'', ''sql'', ''connection'',
        ''unauthorized'', ''forbidden'', ''token'', ''validation'', ''invalid'', ''required'']"
  by (simp_all add: mentions_code ascii_lower asciiLowerChar_def)

theorem categorizeError_by_keywords_witness:
  "categorizeError asciiPlatform (AppErr (newAppError3 ''No plan'' BUSINESS_LOGIC HIGH)) []
     = newAppError3 ''No plan'' BUSINESS_LOGIC HIGH
   \<and> verdict (categorizeError asciiPlatform (Error ''Request Timeout'') []) = (EXTERNAL_API, True)
   \<and> verdict (categorizeError asciiPlatform (Error ''SQL syntax'') []) = (DATABASE, True)
   \<and> verdict (categorizeError asciiPlatform (Error ''Forbidden'') []) = (AUTHENTICATION, False)
   \<and> verdict (categorizeError asciiPlatform (Error ''email is Required'') []) = (VALIDATION, False)
   \<and> verdict (categorizeError asciiPlatform (Error ''boom'') []) = (SYSTEM, False)"
  using categorizeError_by_keywords[of asciiPlatform "newAppError3 ''No plan'' BUSINESS_LOGIC HIGH" "[]" "''Request Timeout''"]
    categorizeError_by_keywords[of asciiPlatform "newAppError3 ''No plan'' BUSINESS_LOGIC HIGH" "[]" "''SQL syntax''"]
    categorizeError_by_keywords[of asciiPlatform "newAppError3 ''No plan'' BUSINESS_LOGIC HIGH" "[]" "''Forbidden''"]
    categorizeError_by_keywords[of asciiPlatform "newAppError3 ''No plan'' BUSINESS_LOGIC HIGH" "[]" "''email is Required''"]
    categorizeError_by_keywords[of asciiPlatform "newAppError3 ''No plan'' BUSINESS_LOGIC HIGH" "[]" "''boom''"]
    mentions_examples
  by simp

text \<open>
  Claim C6 as stated gives each group of keywords its verdict whatever else the message
  contains. A message that contains keywords of two groups gets the verdict of the
  earlier group only: \<open>database fetch\<close> contains \<open>database\<close> and is classified
  ExternalApi, not Database; \<open>token timeout\<close> contains \<open>token\<close> and is classified
  ExternalApi and retryable, not Authentication and not retryable; \<open>invalid token\<close>
  contains \<open>invalid\<close> and is classified Authentication, not Validation.
\<close>

theorem categorizeError_overlap_counterexample:
  "mentions asciiPlatform ''database fetch'' [''database'', ''sql'', ''connection'']
   \<and> verdict (categorizeError asciiPlatform (Error ''database fetch'') []) = (EXTERNAL_API, True)
   \<and> mentions asciiPlatform ''token timeout'' [''unauthorized'', ''forbidden'', ''token'']
   \<and> verdict (categorizeError asciiPlatform (Error ''token timeout'') []) = (EXTERNAL_API, True)
   \<and> mentions asciiPlatform ''invalid token'' [''validation'', ''invalid'', ''required'']
   \<and> verdict (categorizeError asciiPlatform (Error ''invalid token'') []) = (AUTHENTICATION, False)"
  by (simp add: categorizeError.simps(2) mentions_code ascii_lower asciiLowerChar_def verdict_def
      newAppError_def)

section \<open>Properties of the extractor\<close>

text \<open>
  Claim C9, as the code has it. For the three subscription lifecycle events the status of
  the subscription projection is the status field of the event object. For a completed
  checkout session it is the constant \<open>active\<close>, whatever status the session object
  carries. Any other event type has no projection.
\<close>

theorem extractSubscriptionData_status:
  "(e_type event \<in> {''customer.subscription.created'', ''customer.subscription.updated'',
                     ''customer.subscription.deleted''}
      \<longrightarrow> map_option sd_status (extractSubscriptionData event) = Some (o_status (e_object event)))
   \<and> (e_type event = ''checkout.session.completed''
      \<longrightarrow> map_option sd_status (extractSubscriptionData event) = Some ''active'')
   \<and> (e_type event \<notin> {''checkout.session.completed'', ''customer.subscription.created'',
                     ''customer.subscription.updated'', ''customer.subscription.deleted''}
      \<longrightarrow> extractSubscriptionData event = None)"
  by (auto simp: extractSubscriptionData_def Let_def)

theorem extractSubscriptionData_status_witness:
  "map_option sd_status
     (extractSubscriptionData (exampleEvent ''customer.subscription.updated'' ''past_due''))
     = Some ''past_due''
   \<and> map_option sd_status
       (extractSubscriptionData (exampleEvent ''checkout.session.completed'' ''complete''))
     = Some ''active''
   \<and> extractSubscriptionData (exampleEvent ''invoice.paid'' ''paid'') = None"
  using extractSubscriptionData_status[of "exampleEvent ''customer.subscription.updated'' ''past_due''"]
    extractSubscriptionData_status[of "exampleEvent ''checkout.session.completed'' ''complete''"]
    extractSubscriptionData_status[of "exampleEvent ''invoice.paid'' ''paid''"]
  by (simp add: exampleEvent_def exampleObject_def)

text \<open>
  Claim C9 as stated fails for the checkout event: the session object carries the status
  \<open>complete\<close>, the projection carries \<open>active\<close>.
\<close>

theorem extract_checkout_status_counterexample:
  "o_status (e_object (exampleEvent ''checkout.session.completed'' ''complete'')) = ''complete''
   \<and> map_option sd_status
       (extractSubscriptionData (exampleEvent ''checkout.session.completed'' ''complete''))
       = Some ''active''"
  by (simp add: extractSubscriptionData_def exampleEvent_def exampleObject_def)

section \<open>Properties of the ledger\<close>

text \<open>
  Claim C7, as the code has it. \<open>updateWebhookStatus\<close> never adds or removes a ledger
  entry. When the store accepts the statement, every entry with the given key gets the
  requested status, one of processing, success and error and never received, and the
  given error message (none when the argument is omitted), whatever its status was;
  every other entry is left as it is. When the store fails, the ledger is unchanged. The
  operation has no guard on the current status.
\<close>

theorem updateWebhookStatus_overwrites:
  "(case DatabaseService_updateWebhookStatus key st msg w of (r, w') \<Rightarrow>
      ledgerKeys w' = ledgerKeys w
      \<and> (nextFault w = None \<longrightarrow>
            r = Inr ()
            \<and> (\<forall>i < length (webhook_logs w).
                  if wl_idempotency_key (webhook_logs w ! i) = key
                  then wl_status (webhook_logs w' ! i) = statusOf st
                       \<and> wl_status (webhook_logs w' ! i) \<noteq> RECEIVED
                       \<and> wl_error_message (webhook_logs w' ! i) = msg
                  else webhook_logs w' ! i = webhook_logs w ! i))
      \<and> (nextFault w \<noteq> None \<longrightarrow>
            r = Inl (Error (render (nextFault w))) \<and> webhook_logs w' = webhook_logs w))"
  by (cases "faults w"; cases st; cases "hd (faults w)")
     (auto simp: DatabaseService_updateWebhookStatus_def io_defs nextFault_def ledgerKeys_def
        render_def comp_def split: list.splits option.splits)

theorem updateWebhookStatus_overwrites_witness:
  "map wl_status (webhook_logs (ledgerWorld PROCESSING)) = [PROCESSING]
   \<and> DatabaseService_updateWebhookStatus ''stripe_evt_1'' To_ERROR (Some ''system: boom'')
         (ledgerWorld PROCESSING)
       = (Inr (), (ledgerWorld PROCESSING)
            \<lparr>webhook_logs := [(exampleLog ERROR)\<lparr>wl_error_message := Some ''system: boom''\<rparr>],
             calls := [Db_updateWebhookStatus ''stripe_evt_1'' To_ERROR (Some ''system: boom'')]\<rparr>)"
  using updateWebhookStatus_overwrites[where key = "''stripe_evt_1''" and st = To_ERROR
      and msg = "Some ''system: boom''" and w = "ledgerWorld PROCESSING"]
  by (simp add: DatabaseService_updateWebhookStatus_def io_defs ledgerWorld_def exampleWorld_def
      exampleLog_def)

text \<open>
  Claim C7 as stated fails: an entry in the terminal state success is moved back to
  processing by the update operation.
\<close>

theorem updateWebhookStatus_backward_counterexample:
  "map wl_status (webhook_logs (ledgerWorld SUCCESS)) = [SUCCESS]
   \<and> map wl_status (webhook_logs (snd
         (DatabaseService_updateWebhookStatus ''stripe_evt_1'' To_PROCESSING None
            (ledgerWorld SUCCESS)))) = [PROCESSING]"
  by (simp add: DatabaseService_updateWebhookStatus_def io_defs ledgerWorld_def exampleWorld_def
      exampleLog_def)

section \<open>Properties of the reconciliation\<close>

lemmas db_defs = DatabaseService_findSubscriptionByStripeId_def
  DatabaseService_updateSubscriptionStatus_def DatabaseService_findPlanMapping_def
  DatabaseService_updateSubscriptionPlan_def DatabaseService_findCustomerByStripeId_def
  DatabaseService_webhookExists_def DatabaseService_logWebhook_def
  DatabaseService_updateWebhookStatus_def

lemmas enhance_defs = EnhanceService_suspendSubscription_def EnhanceService_reactivateSubscription_def
  EnhanceService_cancelSubscription_def EnhanceService_getSubscription_def
  EnhanceService_changeSubscriptionPlan_def StripeService_getSubscription_def

lemma tableTarget_cases:
  assumes "tableTarget s = Some t"
  shows "(s = ''active'' \<and> t = Active)
  \<or> (s = ''past_due'' \<and> t = Suspended) \<or> (s = ''unpaid'' \<and> t = Suspended)
  \<or> (s = ''canceled'' \<and> t = Canceled) \<or> (s = ''incomplete_expired'' \<and> t = Canceled)"
proof (cases "s = ''active''")
  case True
  with assms show ?thesis by (simp add: tableTarget_def)
next
  case False
  note a = this
  show ?thesis
  proof (cases "s = ''past_due'' \<or> s = ''unpaid''")
    case True
    with assms a show ?thesis unfolding tableTarget_def by force
  next
    case False
    with assms a show ?thesis unfolding tableTarget_def by (simp split: if_splits)
  qed
qed

lemma tableTarget_none:
  assumes "tableTarget s = None"
  shows "s \<noteq> ''active'' \<and> s \<noteq> ''past_due'' \<and> s \<noteq> ''unpaid'' \<and> s \<noteq> ''canceled''
     \<and> s \<noteq> ''incomplete_expired''"
  using assms unfolding tableTarget_def by (simp split: if_splits)

lemma updated_event_data:
  assumes "e_type event = ''customer.subscription.updated''"
  shows "extractSubscriptionData event =
     Some \<lparr>sd_stripeSubscriptionId = o_id (e_object event),
           sd_stripeCustomerId = o_customer (e_object event),
           sd_stripePriceId = o_item_price (e_object event),
           sd_status = o_status (e_object event)\<rparr>"
  using assms by (simp add: extractSubscriptionData_def Let_def)

lemma find_after_status_update:
  "find (\<lambda>s. s_stripe_subscription_id s = Some sid)
        (map (\<lambda>s. if s_id s = i then s\<lparr>s_status := t\<rparr> else s) xs)
     = map_option (\<lambda>s. if s_id s = i then s\<lparr>s_status := t\<rparr> else s)
         (find (\<lambda>s. s_stripe_subscription_id s = Some sid) xs)"
  by (induction xs) simp_all


lemma updated_operation_known:
  assumes q: "faults w = []"
    and f: "find (\<lambda>s. s_stripe_subscription_id s = Some (o_id (e_object event))) (subscriptions w) = Some sub"
    and e: "e_type event = ''customer.subscription.updated''"
    and t: "tableTarget (o_status (e_object event)) = Some t"
  shows "handleSubscriptionUpdated_operation event w =
     (Inr (), w\<lparr>calls := calls w @
                   [if t = Active then Enh_reactivateSubscription (s_enhance_subscription_id sub)
                    else Enh_suspendSubscription (s_enhance_subscription_id sub),
                    Db_updateSubscriptionStatus (s_id sub) t],
                subscriptions := map (\<lambda>s. if s_id s = s_id sub then s\<lparr>s_status := t\<rparr> else s)
                                   (subscriptions w)\<rparr>)"
  using tableTarget_cases[OF t]
  by (elim disjE conjE)
     (simp_all add: handleSubscriptionUpdated_operation_def updated_event_data[OF e] io_defs db_defs
      enhance_defs q f)

lemma updated_operation_unknown:
  assumes q: "faults w = []"
    and f: "find (\<lambda>s. s_stripe_subscription_id s = Some (o_id (e_object event))) (subscriptions w) = Some sub"
    and e: "e_type event = ''customer.subscription.updated''"
    and t: "tableTarget (o_status (e_object event)) = None"
  shows "handleSubscriptionUpdated_operation event w = (Inr (), w)"
  using tableTarget_none[OF t]
  by (simp add: handleSubscriptionUpdated_operation_def updated_event_data[OF e] io_defs db_defs
      enhance_defs q f)

lemma updated_operation_absent:
  assumes q: "faults w = []"
    and f: "find (\<lambda>s. s_stripe_subscription_id s = Some (o_id (e_object event))) (subscriptions w) = None"
    and e: "e_type event = ''customer.subscription.updated''"
  shows "handleSubscriptionUpdated_operation event w = (Inr (), w)"
  by (simp add: handleSubscriptionUpdated_operation_def updated_event_data[OF e] io_defs db_defs q f)


lemma sync_known:
  assumes q: "faults w = []"
    and f: "find (\<lambda>s. s_stripe_subscription_id s = Some sid) (subscriptions w) = Some sub"
    and t: "tableTarget (stripe_subscriptions w sid) = Some t"
  shows "syncSingleSubscription sid w =
     (Inr (), w\<lparr>calls := calls w @
                   (if enhance_subscriptions w (s_enhance_subscription_id sub) \<noteq> t
                    then [case t of
                            Active \<Rightarrow> Enh_reactivateSubscription (s_enhance_subscription_id sub)
                          | Suspended \<Rightarrow> Enh_suspendSubscription (s_enhance_subscription_id sub)
                          | Canceled \<Rightarrow> Enh_cancelSubscription (s_enhance_subscription_id sub)]
                    else []) @
                   (if s_status sub \<noteq> t then [Db_updateSubscriptionStatus (s_id sub) t] else []),
                subscriptions := (if s_status sub \<noteq> t
                   then map (\<lambda>s. if s_id s = s_id sub then s\<lparr>s_status := t\<rparr> else s) (subscriptions w)
                   else subscriptions w)\<rparr>)"
  using tableTarget_cases[OF t]
  by (elim disjE conjE)
     (simp_all add: syncSingleSubscription_def io_defs db_defs enhance_defs q f)

lemma sync_unknown:
  assumes q: "faults w = []"
    and f: "find (\<lambda>s. s_stripe_subscription_id s = Some sid) (subscriptions w) = Some sub"
    and t: "tableTarget (stripe_subscriptions w sid) = None"
  shows "syncSingleSubscription sid w = (Inr (), w)"
  using tableTarget_none[OF t]
  by (simp add: syncSingleSubscription_def io_defs db_defs enhance_defs q f)

lemma deleted_event_data:
  assumes "e_type event = ''customer.subscription.deleted''"
  shows "extractSubscriptionData event =
     Some \<lparr>sd_stripeSubscriptionId = o_id (e_object event),
           sd_stripeCustomerId = o_customer (e_object event),
           sd_stripePriceId = o_item_price (e_object event),
           sd_status = o_status (e_object event)\<rparr>"
  using assms by (simp add: extractSubscriptionData_def Let_def)

lemma deleted_operation_known:
  assumes q: "faults w = []"
    and f: "find (\<lambda>s. s_stripe_subscription_id s = Some (o_id (e_object event))) (subscriptions w) = Some sub"
    and e: "e_type event = ''customer.subscription.deleted''"
  shows "handleSubscriptionDeleted_operation event w =
     (Inr (), w\<lparr>calls := calls w @
                   [Enh_suspendSubscription (s_enhance_subscription_id sub),
                    Db_updateSubscriptionStatus (s_id sub) Canceled],
                subscriptions := map (\<lambda>s. if s_id s = s_id sub then s\<lparr>s_status := Canceled\<rparr> else s)
                                   (subscriptions w)\<rparr>)"
  by (simp add: handleSubscriptionDeleted_operation_def deleted_event_data[OF e] io_defs db_defs
      enhance_defs q f)


lemma storedStatus_after_update:
  assumes "find (\<lambda>s. s_stripe_subscription_id s = Some sid) (subscriptions w) = Some sub"
  shows "storedStatus sid (w\<lparr>calls := cs,
            subscriptions := map (\<lambda>s. if s_id s = s_id sub then s\<lparr>s_status := t\<rparr> else s)
                               (subscriptions w)\<rparr>) = Some t"
  using assms by (simp add: storedStatus_def find_after_status_update)

lemma updated_handler_known:
  assumes "faults (rt_state rt) = []"
    and "find (\<lambda>s. s_stripe_subscription_id s = Some (o_id (e_object event)))
           (subscriptions (rt_state rt)) = Some sub"
    and "e_type event = ''customer.subscription.updated''"
    and "tableTarget (o_status (e_object event)) = Some t"
  shows "handleSubscriptionUpdated js event rt =
     (Inr (), rt\<lparr>rt_state := (rt_state rt)\<lparr>calls := calls (rt_state rt) @
                   [if t = Active then Enh_reactivateSubscription (s_enhance_subscription_id sub)
                    else Enh_suspendSubscription (s_enhance_subscription_id sub),
                    Db_updateSubscriptionStatus (s_id sub) t],
                subscriptions := map (\<lambda>s. if s_id s = s_id sub then s\<lparr>s_status := t\<rparr> else s)
                                   (subscriptions (rt_state rt))\<rparr>\<rparr>)"
  using withRetry_first_success[where operation = "handleSubscriptionUpdated_operation event"
      and rt = rt and maxRetries = 3, OF updated_operation_known[OF assms]]
  by (simp add: handleSubscriptionUpdated_def)

lemma updated_handler_unknown:
  assumes "faults (rt_state rt) = []"
    and "find (\<lambda>s. s_stripe_subscription_id s = Some (o_id (e_object event)))
           (subscriptions (rt_state rt)) = Some sub"
    and "e_type event = ''customer.subscription.updated''"
    and "tableTarget (o_status (e_object event)) = None"
  shows "handleSubscriptionUpdated js event rt = (Inr (), rt)"
  using withRetry_first_success[where operation = "handleSubscriptionUpdated_operation event"
      and rt = rt and maxRetries = 3, OF updated_operation_unknown[OF assms]]
  by (simp add: handleSubscriptionUpdated_def)

lemma updated_handler_absent:
  assumes "faults (rt_state rt) = []"
    and "find (\<lambda>s. s_stripe_subscription_id s = Some (o_id (e_object event)))
           (subscriptions (rt_state rt)) = None"
    and "e_type event = ''customer.subscription.updated''"
  shows "handleSubscriptionUpdated js event rt = (Inr (), rt)"
  using withRetry_first_success[where operation = "handleSubscriptionUpdated_operation event"
      and rt = rt and maxRetries = 3, OF updated_operation_absent[OF assms]]
  by (simp add: handleSubscriptionUpdated_def)

lemma deleted_handler_known:
  assumes "faults (rt_state rt) = []"
    and "find (\<lambda>s. s_stripe_subscription_id s = Some (o_id (e_object event)))
           (subscriptions (rt_state rt)) = Some sub"
    and "e_type event = ''customer.subscription.deleted''"
  shows "handleSubscriptionDeleted js event rt =
     (Inr (), rt\<lparr>rt_state := (rt_state rt)\<lparr>calls := calls (rt_state rt) @
                   [Enh_suspendSubscription (s_enhance_subscription_id sub),
                    Db_updateSubscriptionStatus (s_id sub) Canceled],
                subscriptions := map (\<lambda>s. if s_id s = s_id sub then s\<lparr>s_status := Canceled\<rparr> else s)
                                   (subscriptions (rt_state rt))\<rparr>\<rparr>)"
  using withRetry_first_success[where operation = "handleSubscriptionDeleted_operation event"
      and rt = rt and maxRetries = 3, OF deleted_operation_known[OF assms]]
  by (simp add: handleSubscriptionDeleted_def)

text \<open>
  Claim C1. Take a subscription that the store knows under the payments identifier, and
  a run in which no remote call fails. For a payments status of the table, the
  subscription-updated handler and \<open>syncSingleSubscription\<close> both return normally and
  leave the stored status of the subscription equal to the target of the table. For any
  other status string both return normally and leave the whole state as it was: no
  provisioning call is made and no status is written.
\<close>

theorem target_status_follows_table:
  assumes quiet: "faults w = []"
    and found: "find (\<lambda>s. s_stripe_subscription_id s = Some sid) (subscriptions w) = Some sub"
    and ev: "e_type event = ''customer.subscription.updated''" "o_id (e_object event) = sid"
    and st: "o_status (e_object event) = st" "stripe_subscriptions w sid = st"
    and rt: "rt_state rt = w"
  shows "(tableTarget st \<noteq> None \<longrightarrow>
            (\<exists>w1. handleSubscriptionUpdated js event rt = (Inr (), rt\<lparr>rt_state := w1\<rparr>)
                  \<and> storedStatus sid w1 = tableTarget st)
          \<and> (\<exists>w2. syncSingleSubscription sid w = (Inr (), w2)
                  \<and> storedStatus sid w2 = tableTarget st))
       \<and> (tableTarget st = None \<longrightarrow>
            handleSubscriptionUpdated js event rt = (Inr (), rt)
          \<and> syncSingleSubscription sid w = (Inr (), w))"
proof (cases "tableTarget st")
  case None
  have "handleSubscriptionUpdated js event rt = (Inr (), rt)"
    using updated_handler_unknown[of rt event sub] quiet found ev st None rt by simp
  moreover have "syncSingleSubscription sid w = (Inr (), w)"
    using sync_unknown[OF quiet found] st None by simp
  ultimately show ?thesis using None by simp
next
  case (Some t)
  let ?w1 = "w\<lparr>calls := calls w @
                   [if t = Active then Enh_reactivateSubscription (s_enhance_subscription_id sub)
                    else Enh_suspendSubscription (s_enhance_subscription_id sub),
                    Db_updateSubscriptionStatus (s_id sub) t],
                subscriptions := map (\<lambda>s. if s_id s = s_id sub then s\<lparr>s_status := t\<rparr> else s)
                                   (subscriptions w)\<rparr>"
  have h: "handleSubscriptionUpdated js event rt = (Inr (), rt\<lparr>rt_state := ?w1\<rparr>)"
    using updated_handler_known[of rt event sub t] quiet found ev st Some rt by simp
  have "storedStatus sid ?w1 = tableTarget st"
    using storedStatus_after_update[OF found] Some by simp
  with h have one: "\<exists>w1. handleSubscriptionUpdated js event rt = (Inr (), rt\<lparr>rt_state := w1\<rparr>)
                  \<and> storedStatus sid w1 = tableTarget st"
    by blast
  have b: "tableTarget (stripe_subscriptions w sid) = Some t" using st Some by simp
  have two: "\<exists>w2. syncSingleSubscription sid w = (Inr (), w2) \<and> storedStatus sid w2 = tableTarget st"
  proof (cases "s_status sub = t")
    case True
    then show ?thesis
      unfolding sync_known[OF quiet found b] using found Some
      by (simp add: storedStatus_def)
  next
    case False
    then show ?thesis
      unfolding sync_known[OF quiet found b] using storedStatus_after_update[OF found] Some
      by simp
  qed
  from one two Some show ?thesis by simp
qed


lemma example_quiet: "faults (exampleWorld st) = []"
  by (simp add: exampleWorld_def)

lemma example_found:
  "find (\<lambda>s. s_stripe_subscription_id s = Some ''sub_1'') (subscriptions (exampleWorld st))
     = Some subscription1"
  by (simp add: exampleWorld_def subscription1_def)

lemma example_event:
  "e_type (exampleEvent ty st) = ty" "o_id (e_object (exampleEvent ty st)) = ''sub_1''"
  "o_status (e_object (exampleEvent ty st)) = st"
  by (simp_all add: exampleEvent_def exampleObject_def)

lemma example_stripe: "stripe_subscriptions (exampleWorld st) i = st"
  by (simp add: exampleWorld_def always_def)

lemma example_enhance: "enhance_subscriptions (exampleWorld st) i = Active"
  by (simp add: exampleWorld_def always_def)

lemma fresh_state: "rt_state (freshRuntime s rnd) = s"
  by (simp add: freshRuntime_def)

lemma tableTarget_examples:
  "tableTarget ''active'' = Some Active" "tableTarget ''past_due'' = Some Suspended"
  "tableTarget ''canceled'' = Some Canceled" "tableTarget ''trialing'' = None"
  by (simp_all add: tableTarget_def)

theorem target_status_follows_table_witness:
  "handleSubscriptionUpdated asciiPlatform (exampleEvent ''customer.subscription.updated'' ''past_due'')
       (freshRuntime (exampleWorld ''past_due'') halves)
     = (Inr (), freshRuntime ((exampleWorld ''past_due'')
          \<lparr>subscriptions := [subscription1\<lparr>s_status := Suspended\<rparr>],
           calls := [Enh_suspendSubscription ''enh_sub_1'', Db_updateSubscriptionStatus 1 Suspended]\<rparr>)
          halves)
   \<and> syncSingleSubscription ''sub_1'' (exampleWorld ''past_due'')
     = (Inr (), (exampleWorld ''past_due'')
          \<lparr>subscriptions := [subscription1\<lparr>s_status := Suspended\<rparr>],
           calls := [Enh_suspendSubscription ''enh_sub_1'', Db_updateSubscriptionStatus 1 Suspended]\<rparr>)
   \<and> tableTarget ''past_due'' = Some Suspended
   \<and> handleSubscriptionUpdated asciiPlatform (exampleEvent ''customer.subscription.updated'' ''trialing'')
       (freshRuntime (exampleWorld ''trialing'') halves)
     = (Inr (), freshRuntime (exampleWorld ''trialing'') halves)
   \<and> syncSingleSubscription ''sub_1'' (exampleWorld ''trialing'') = (Inr (), exampleWorld ''trialing'')
   \<and> tableTarget ''trialing'' = None"
proof -
  have a: "handleSubscriptionUpdated asciiPlatform (exampleEvent ''customer.subscription.updated'' ''past_due'')
       (freshRuntime (exampleWorld ''past_due'') halves)
     = (Inr (), freshRuntime ((exampleWorld ''past_due'')
          \<lparr>subscriptions := [subscription1\<lparr>s_status := Suspended\<rparr>],
           calls := [Enh_suspendSubscription ''enh_sub_1'', Db_updateSubscriptionStatus 1 Suspended]\<rparr>)
          halves)"
    using updated_handler_known[of "freshRuntime (exampleWorld ''past_due'') halves"
        "exampleEvent ''customer.subscription.updated'' ''past_due''" subscription1 Suspended]
    by (simp add: fresh_state example_quiet example_found example_event tableTarget_examples)
       (simp add: freshRuntime_def exampleWorld_def subscription1_def)
  have b: "syncSingleSubscription ''sub_1'' (exampleWorld ''past_due'')
     = (Inr (), (exampleWorld ''past_due'')
          \<lparr>subscriptions := [subscription1\<lparr>s_status := Suspended\<rparr>],
           calls := [Enh_suspendSubscription ''enh_sub_1'', Db_updateSubscriptionStatus 1 Suspended]\<rparr>)"
    using sync_known[of "exampleWorld ''past_due''" "''sub_1''" subscription1 Suspended]
    by (simp add: example_quiet example_found example_stripe example_enhance tableTarget_examples)
       (simp add: exampleWorld_def subscription1_def)
  show ?thesis
    using target_status_follows_table[of "exampleWorld ''past_due''" "''sub_1''" subscription1
        "exampleEvent ''customer.subscription.updated'' ''past_due''" "''past_due''"
        "freshRuntime (exampleWorld ''past_due'') halves"]
      target_status_follows_table[of "exampleWorld ''trialing''" "''sub_1''" subscription1
        "exampleEvent ''customer.subscription.updated'' ''trialing''" "''trialing''"
        "freshRuntime (exampleWorld ''trialing'') halves"]
      a b
    by (simp add: fresh_state example_quiet example_found example_event example_stripe
        tableTarget_examples)
qed


text \<open>
  Claim C4, as the code has it. For a subscription-updated event whose status is in the
  table, in a run in which no remote call fails, the handler makes the provisioning call
  of the target (reactivate for active, suspend for suspended and for canceled) and then
  writes the target to the stored subscription. It does so whatever status the
  provisioning system reports for the subscription, \<open>enhance_subscriptions w\<close> being
  arbitrary: also when that status already equals the target.
\<close>

theorem updated_event_acts_unconditionally:
  assumes quiet: "faults w = []"
    and found: "find (\<lambda>s. s_stripe_subscription_id s = Some (o_id (e_object event)))
                  (subscriptions w) = Some sub"
    and ev: "e_type event = ''customer.subscription.updated''"
    and target: "tableTarget (o_status (e_object event)) = Some t"
    and rt: "rt_state rt = w"
  shows "handleSubscriptionUpdated js event rt =
     (Inr (), rt\<lparr>rt_state := w
        \<lparr>calls := calls w @
           [if t = Active then Enh_reactivateSubscription (s_enhance_subscription_id sub)
            else Enh_suspendSubscription (s_enhance_subscription_id sub),
            Db_updateSubscriptionStatus (s_id sub) t],
         subscriptions := map (\<lambda>s. if s_id s = s_id sub then s\<lparr>s_status := t\<rparr> else s)
                            (subscriptions w)\<rparr>\<rparr>)"
  using updated_handler_known[of rt event sub t] assms by simp

theorem updated_event_acts_unconditionally_witness:
  "handleSubscriptionUpdated asciiPlatform (exampleEvent ''customer.subscription.updated'' ''canceled'')
       (freshRuntime (exampleWorld ''canceled'') halves)
     = (Inr (), freshRuntime ((exampleWorld ''canceled'')
          \<lparr>subscriptions := [subscription1\<lparr>s_status := Canceled\<rparr>],
           calls := [Enh_suspendSubscription ''enh_sub_1'', Db_updateSubscriptionStatus 1 Canceled]\<rparr>)
          halves)"
  using updated_event_acts_unconditionally[of "exampleWorld ''canceled''"
      "exampleEvent ''customer.subscription.updated'' ''canceled''" subscription1 Canceled
      "freshRuntime (exampleWorld ''canceled'') halves"]
  by (simp add: fresh_state example_quiet example_found example_event tableTarget_examples)
     (simp add: freshRuntime_def exampleWorld_def subscription1_def)

text \<open>
  Claim C4 as stated fails: the provisioning system already reports the subscription
  active, the event carries the status active, and the handler still calls reactivate.
\<close>

theorem updated_event_acts_although_equal_counterexample:
  "enhance_subscriptions (exampleWorld ''active'') ''enh_sub_1'' = Active
   \<and> tableTarget ''active'' = Some Active
   \<and> calls (rt_state (snd (handleSubscriptionUpdated asciiPlatform
         (exampleEvent ''customer.subscription.updated'' ''active'')
         (freshRuntime (exampleWorld ''active'') halves))))
       = [Enh_reactivateSubscription ''enh_sub_1'', Db_updateSubscriptionStatus 1 Active]"
  using updated_handler_known[of "freshRuntime (exampleWorld ''active'') halves"
        "exampleEvent ''customer.subscription.updated'' ''active''" subscription1 Active]
  by (simp add: fresh_state example_quiet example_found example_event tableTarget_examples
        example_enhance)
     (simp add: exampleWorld_def subscription1_def)

text \<open>
  Claim C2, as the code has it. In a run in which no remote call fails, for a known
  subscription whose payments status has the target canceled, \<open>syncSingleSubscription\<close>
  calls \<open>cancelSubscription\<close> (the \<open>DELETE\<close> of the provisioning subscription) when the
  provisioning system does not report it canceled, and never calls suspend; the
  subscription-deleted handler calls \<open>suspendSubscription\<close>, always, and never the
  cancellation.
\<close>

theorem cancellation_paths:
  assumes quiet: "faults w = []"
    and found: "find (\<lambda>s. s_stripe_subscription_id s = Some sid) (subscriptions w) = Some sub"
    and target: "tableTarget (stripe_subscriptions w sid) = Some Canceled"
    and ev: "e_type event = ''customer.subscription.deleted''" "o_id (e_object event) = sid"
    and rt: "rt_state rt = w"
  shows "(\<exists>w1. syncSingleSubscription sid w = (Inr (), w1)
            \<and> calls w1 = calls w
                 @ (if enhance_subscriptions w (s_enhance_subscription_id sub) \<noteq> Canceled
                    then [Enh_cancelSubscription (s_enhance_subscription_id sub)] else [])
                 @ (if s_status sub \<noteq> Canceled
                    then [Db_updateSubscriptionStatus (s_id sub) Canceled] else []))
       \<and> (\<exists>w2. handleSubscriptionDeleted js event rt = (Inr (), rt\<lparr>rt_state := w2\<rparr>)
            \<and> calls w2 = calls w
                 @ [Enh_suspendSubscription (s_enhance_subscription_id sub),
                    Db_updateSubscriptionStatus (s_id sub) Canceled])"
proof
  show "\<exists>w1. syncSingleSubscription sid w = (Inr (), w1)
            \<and> calls w1 = calls w
                 @ (if enhance_subscriptions w (s_enhance_subscription_id sub) \<noteq> Canceled
                    then [Enh_cancelSubscription (s_enhance_subscription_id sub)] else [])
                 @ (if s_status sub \<noteq> Canceled
                    then [Db_updateSubscriptionStatus (s_id sub) Canceled] else [])"
    unfolding sync_known[OF quiet found target] by simp
  show "\<exists>w2. handleSubscriptionDeleted js event rt = (Inr (), rt\<lparr>rt_state := w2\<rparr>)
            \<and> calls w2 = calls w
                 @ [Enh_suspendSubscription (s_enhance_subscription_id sub),
                    Db_updateSubscriptionStatus (s_id sub) Canceled]"
    using deleted_handler_known[of rt event sub] quiet found ev rt
    by (intro exI[of _ "w\<lparr>calls := calls w @
                   [Enh_suspendSubscription (s_enhance_subscription_id sub),
                    Db_updateSubscriptionStatus (s_id sub) Canceled],
                subscriptions := map (\<lambda>s. if s_id s = s_id sub then s\<lparr>s_status := Canceled\<rparr> else s)
                                   (subscriptions w)\<rparr>"]) simp
qed

text \<open>
  Claim C2 as stated fails on both paths: the sweep's step issues the hard cancel, the
  deletion handler issues a suspend.
\<close>

theorem cancellation_paths_counterexample:
  "tableTarget ''canceled'' = Some Canceled
   \<and> calls (snd (syncSingleSubscription ''sub_1'' (exampleWorld ''canceled'')))
       = [Enh_cancelSubscription ''enh_sub_1'', Db_updateSubscriptionStatus 1 Canceled]
   \<and> calls (rt_state (snd (handleSubscriptionDeleted asciiPlatform
         (exampleEvent ''customer.subscription.deleted'' ''canceled'')
         (freshRuntime (exampleWorld ''canceled'') halves))))
       = [Enh_suspendSubscription ''enh_sub_1'', Db_updateSubscriptionStatus 1 Canceled]"
  using sync_known[of "exampleWorld ''canceled''" "''sub_1''" subscription1 Canceled]
    deleted_handler_known[of "freshRuntime (exampleWorld ''canceled'') halves"
      "exampleEvent ''customer.subscription.deleted'' ''canceled''" subscription1]
  by (simp add: fresh_state example_quiet example_found example_event example_stripe
        example_enhance tableTarget_examples)
     (simp add: exampleWorld_def subscription1_def)

theorem cancellation_paths_witness:
  "(\<exists>w1. syncSingleSubscription ''sub_1'' (exampleWorld ''canceled'') = (Inr (), w1)
       \<and> calls w1 = [Enh_cancelSubscription ''enh_sub_1'', Db_updateSubscriptionStatus 1 Canceled])
   \<and> (\<exists>w2. handleSubscriptionDeleted asciiPlatform (exampleEvent ''customer.subscription.deleted'' ''canceled'')
               (freshRuntime (exampleWorld ''canceled'') halves)
             = (Inr (), (freshRuntime (exampleWorld ''canceled'') halves)\<lparr>rt_state := w2\<rparr>)
       \<and> calls w2 = [Enh_suspendSubscription ''enh_sub_1'', Db_updateSubscriptionStatus 1 Canceled])"
  using cancellation_paths[of "exampleWorld ''canceled''" "''sub_1''" subscription1
      "exampleEvent ''customer.subscription.deleted'' ''canceled''"
      "freshRuntime (exampleWorld ''canceled'') halves"]
  by (simp add: fresh_state example_quiet example_found example_event example_stripe
        example_enhance tableTarget_examples)
     (simp add: exampleWorld_def subscription1_def)

section \<open>Properties of the webhook handler\<close>

lemma exists_check:
  assumes "faults (rt_state rt) = []"
  shows "lift (DatabaseService_webhookExists k) rt
     = (Inr (list_ex (\<lambda>l. wl_idempotency_key l = k) (webhook_logs (rt_state rt))), rt)"
  using assms by (simp add: io_defs db_defs)

lemma log_operation_fresh:
  assumes "faults w = []" "\<not> list_ex (\<lambda>l. wl_idempotency_key l = k) (webhook_logs w)"
  shows "DatabaseService_logWebhook k src ty ev (Some st) w
     = (Inr \<lparr>wl_idempotency_key = k, wl_source = src, wl_event_type = ty, wl_status = st,
             wl_payload_json = ev, wl_error_message = None\<rparr>,
        w\<lparr>calls := calls w @ [Db_logWebhook k],
          webhook_logs := webhook_logs w @
            [\<lparr>wl_idempotency_key = k, wl_source = src, wl_event_type = ty, wl_status = st,
              wl_payload_json = ev, wl_error_message = None\<rparr>]\<rparr>)"
  using assms by (simp add: io_defs db_defs Let_def)

lemma log_first:
  assumes "faults (rt_state rt) = []"
    "\<not> list_ex (\<lambda>l. wl_idempotency_key l = k) (webhook_logs (rt_state rt))"
  shows "withRetry js (DatabaseService_logWebhook k src ty ev (Some st)) 3 b rt
     = (Inr \<lparr>wl_idempotency_key = k, wl_source = src, wl_event_type = ty, wl_status = st,
             wl_payload_json = ev, wl_error_message = None\<rparr>,
        rt\<lparr>rt_state := (rt_state rt)\<lparr>calls := calls (rt_state rt) @ [Db_logWebhook k],
          webhook_logs := webhook_logs (rt_state rt) @
            [\<lparr>wl_idempotency_key = k, wl_source = src, wl_event_type = ty, wl_status = st,
              wl_payload_json = ev, wl_error_message = None\<rparr>]\<rparr>\<rparr>)"
  using withRetry_first_success[where operation = "DatabaseService_logWebhook k src ty ev (Some st)"
      and rt = rt and maxRetries = 3, OF log_operation_fresh[OF assms]]
  by simp

lemma update_quiet:
  assumes "faults (rt_state rt) = []"
  shows "lift (DatabaseService_updateWebhookStatus k st msg) rt
     = (Inr (), rt\<lparr>rt_state := (rt_state rt)
          \<lparr>calls := calls (rt_state rt) @ [Db_updateWebhookStatus k st msg],
           webhook_logs := map (\<lambda>l. if wl_idempotency_key l = k
                             then l\<lparr>wl_status := statusOf st, wl_error_message := msg\<rparr>
                             else l) (webhook_logs (rt_state rt))\<rparr>\<rparr>)"
  using assms by (simp add: io_defs db_defs)

lemma update_other_keys:
  assumes "\<not> list_ex (\<lambda>l. wl_idempotency_key l = k) xs"
  shows "map (\<lambda>l. if wl_idempotency_key l = k then f l else l) xs = xs"
  using assms by (induction xs) simp_all

text \<open>
  Claim C10. A verified subscription-updated event, not yet in the ledger, whose
  subscription identifier matches no stored subscription, in a run in which no remote
  call fails: the handler returns normally and leaves the state as it was, so it makes no
  provisioning call and writes nothing; the request is answered with 200 and
  \<open>{received: true}\<close>, and its ledger entry, inserted as received and moved to processing,
  ends in the status success. The only calls made are the three ledger writes.
\<close>

theorem unknown_subscription_update_is_skipped:
  assumes quiet: "faults w = []"
    and sig: "truthy (req_signature request)"
    and verified: "constructEvent (req_body request) (render (req_signature request)) = Inr event"
    and ev: "e_type event = ''customer.subscription.updated''"
    and absent: "find (\<lambda>s. s_stripe_subscription_id s = Some (o_id (e_object event)))
                   (subscriptions w) = None"
    and fresh: "\<not> list_ex (\<lambda>l. wl_idempotency_key l = ''stripe_'' @ e_id event) (webhook_logs w)"
    and rt: "rt_state rt = w"
  shows "handleSubscriptionUpdated js event rt = (Inr (), rt)
       \<and> POST js constructEvent requestId request rt =
           (\<lparr>resp_status = 200, resp_json = Received None\<rparr>,
            rt\<lparr>rt_state := w
              \<lparr>calls := calls w @
                 [Db_logWebhook (''stripe_'' @ e_id event),
                  Db_updateWebhookStatus (''stripe_'' @ e_id event) To_PROCESSING None,
                  Db_updateWebhookStatus (''stripe_'' @ e_id event) To_SUCCESS None],
               webhook_logs := webhook_logs w @
                 [\<lparr>wl_idempotency_key = ''stripe_'' @ e_id event, wl_source = ''stripe'',
                   wl_event_type = e_type event, wl_status = SUCCESS,
                   wl_payload_json = event, wl_error_message = None\<rparr>]\<rparr>\<rparr>)"
proof
  show "handleSubscriptionUpdated js event rt = (Inr (), rt)"
    using updated_handler_absent[of rt event] quiet absent ev rt by simp
  have d: "\<And>r. faults (rt_state r) = [] \<Longrightarrow> subscriptions (rt_state r) = subscriptions w
     \<Longrightarrow> dispatch js event r = (Inr (), r)"
    using updated_handler_absent[where event = event and js = js] absent ev by (simp add: dispatch_def)
  show "POST js constructEvent requestId request rt =
           (\<lparr>resp_status = 200, resp_json = Received None\<rparr>,
            rt\<lparr>rt_state := w
              \<lparr>calls := calls w @
                 [Db_logWebhook (''stripe_'' @ e_id event),
                  Db_updateWebhookStatus (''stripe_'' @ e_id event) To_PROCESSING None,
                  Db_updateWebhookStatus (''stripe_'' @ e_id event) To_SUCCESS None],
               webhook_logs := webhook_logs w @
                 [\<lparr>wl_idempotency_key = ''stripe_'' @ e_id event, wl_source = ''stripe'',
                   wl_event_type = e_type event, wl_status = SUCCESS,
                   wl_payload_json = event, wl_error_message = None\<rparr>]\<rparr>\<rparr>)"
    using quiet sig verified fresh rt
    by (simp add: POST_def POST_try_def StripeService_verifyWebhookSignature_def Let_def
        andThen_def ret_def tryCatch_def exists_check log_first update_quiet d update_other_keys)
qed


theorem unknown_subscription_update_is_skipped_witness:
  "handleSubscriptionUpdated asciiPlatform strangerEvent (freshRuntime (exampleWorld ''past_due'') halves)
     = (Inr (), freshRuntime (exampleWorld ''past_due'') halves)
   \<and> POST asciiPlatform (accepting strangerEvent) ''req_1'' exampleRequest
         (freshRuntime (exampleWorld ''past_due'') halves)
     = (\<lparr>resp_status = 200, resp_json = Received None\<rparr>,
        freshRuntime ((exampleWorld ''past_due'')
          \<lparr>webhook_logs := [(exampleLog SUCCESS)\<lparr>wl_payload_json := strangerEvent\<rparr>],
           calls := [Db_logWebhook ''stripe_evt_1'',
                     Db_updateWebhookStatus ''stripe_evt_1'' To_PROCESSING None,
                     Db_updateWebhookStatus ''stripe_evt_1'' To_SUCCESS None]\<rparr>) halves)"
  using unknown_subscription_update_is_skipped[where w = "exampleWorld ''past_due''"
      and request = exampleRequest and constructEvent = "accepting strangerEvent"
      and event = strangerEvent and rt = "freshRuntime (exampleWorld ''past_due'') halves"
      and requestId = "''req_1''" and js = asciiPlatform]
  by (simp add: accepting_def exampleRequest_def truthy_def strangerEvent_def exampleEvent_def
        exampleObject_def fresh_state example_quiet)
     (simp add: exampleWorld_def subscription1_def freshRuntime_def exampleLog_def exampleEvent_def
        exampleObject_def)

lemma classifier_never_business_logic:
  "category (categorizeError js (Error m) ctx) \<noteq> BUSINESS_LOGIC"
  by (simp add: categorizeError.simps(2) newAppError_def Let_def)

lemma checkout_event_data:
  assumes "e_type event = ''checkout.session.completed''"
  shows "extractSubscriptionData event =
     Some \<lparr>sd_stripeSubscriptionId = o_subscription (e_object event),
           sd_stripeCustomerId = o_customer (e_object event),
           sd_stripePriceId = o_line_item_price (e_object event),
           sd_status = ''active''\<rparr>"
    and "\<exists>cd. extractCustomerData event = Some cd \<and> cd_stripeCustomerId cd = o_customer (e_object event)"
  using assms by (simp_all add: extractSubscriptionData_def extractCustomerData_def Let_def)

lemma checkout_subscription_missing:
  assumes "faults w = []"
    and "find (\<lambda>m. pm_billing_provider m = Stripe \<and> Some (pm_billing_plan_id m) = sd_stripePriceId sd)
           (plan_mappings w) = None"
  shows "checkout_subscription sd customer w =
     (Inl (AppErr (newAppError3
        (''No plan mapping found for Stripe price: '' @ render (sd_stripePriceId sd))
        BUSINESS_LOGIC HIGH)), w)"
  using assms by (simp add: checkout_subscription_def io_defs db_defs)

lemma checkout_customer_linked:
  assumes "faults w = []"
    and "find (\<lambda>c. c_stripe_customer_id c = Some (cd_stripeCustomerId cd) \<and> \<not> c_deleted c)
           (customers w) = Some customer"
  shows "checkout_customer cd w = (Inr customer, w)"
  using assms by (simp add: checkout_customer_def io_defs db_defs)

lemma ledgerKept_reflp: "reflp ledgerKept"
  by (simp add: reflp_def ledgerKept_def)

lemma ledgerKept_transp: "transp ledgerKept"
  by (simp add: transp_def ledgerKept_def)

lemma onState_reflp: "reflp R \<Longrightarrow> reflp (onState R)"
  by (simp add: reflp_def onState_def)

lemma onState_transp: "transp R \<Longrightarrow> transp (onState R)"
  unfolding transp_def onState_def by blast

lemmas kept_reflp = onState_reflp[OF ledgerKept_reflp]

lemmas kept_transp = onState_transp[OF ledgerKept_transp]

lemma keeps_step: "keeps R m \<Longrightarrow> m s = (r, s') \<Longrightarrow> R s s'"
  unfolding keeps_def by (metis snd_conv)

lemma keeps_ret: "reflp R \<Longrightarrow> keeps R (ret x)"
  by (simp add: keeps_def ret_def reflp_def)

lemma keeps_throw: "reflp R \<Longrightarrow> keeps R (throw e)"
  by (simp add: keeps_def throw_def reflp_def)

lemma keeps_andThen:
  assumes "transp R" "keeps R m" "\<And>x. keeps R (f x)"
  shows "keeps R (andThen m f)"
  unfolding keeps_def
proof
  fix s
  obtain r s' where m: "m s = (r, s')" by (cases "m s")
  have 1: "R s s'" using keeps_step[OF assms(2) m] .
  show "R s (snd (andThen m f s))"
  proof (cases r)
    case (Inl e)
    then show ?thesis using m 1 by (simp add: andThen_def)
  next
    case (Inr x)
    obtain r2 s2 where f: "f x s' = (r2, s2)" by (cases "f x s'")
    have "R s' s2" using keeps_step[OF assms(3) f] .
    with 1 have "R s s2" using assms(1) by (meson transpD)
    then show ?thesis using m Inr f by (simp add: andThen_def)
  qed
qed

lemma keeps_tryCatch:
  assumes "transp R" "keeps R m" "\<And>e. keeps R (h e)"
  shows "keeps R (tryCatch m h)"
  unfolding keeps_def
proof
  fix s
  obtain r s' where m: "m s = (r, s')" by (cases "m s")
  have 1: "R s s'" using keeps_step[OF assms(2) m] .
  show "R s (snd (tryCatch m h s))"
  proof (cases r)
    case (Inr x)
    then show ?thesis using m 1 by (simp add: tryCatch_def)
  next
    case (Inl e)
    obtain r2 s2 where f: "h e s' = (r2, s2)" by (cases "h e s'")
    have "R s' s2" using keeps_step[OF assms(3) f] .
    with 1 have "R s s2" using assms(1) by (meson transpD)
    then show ?thesis using m Inl f by (simp add: tryCatch_def)
  qed
qed

lemma keeps_lift: "keeps R m \<Longrightarrow> keeps (onState R) (lift m)"
  unfolding keeps_def onState_def lift_def
  by (simp split: prod.splits) (metis snd_conv)

lemma retryLoop_keeps:
  assumes Rrefl: "reflp R" and Rtrans: "transp R"
    and op: "keeps R operation"
  shows "R (rt_state rt) (rt_state (snd (retryLoop js operation maxRetries baseDelay attempt lastError rt)))"
  using op
proof (induction js operation maxRetries baseDelay attempt lastError rt rule: retryLoop.induct)
  case (1 js operation maxRetries baseDelay attempt lastError rt)
  obtain r s' where m: "operation (rt_state rt) = (r, s')" by (cases "operation (rt_state rt)")
  have step: "R (rt_state rt) s'" using keeps_step[OF "1.prems" m] .
  have same: "R (rt_state rt) (rt_state rt)" using Rrefl by (simp add: reflp_def)
  show ?case
  proof (cases "attempt \<le> maxRetries")
    case False
    then show ?thesis
      by (subst retryLoop.simps) (simp add: same split: option.splits)
  next
    case True
    note le = this
    show ?thesis
    proof (cases r)
      case (Inr v)
      then show ?thesis using le m step by (subst retryLoop.simps) simp
    next
      case (Inl e)
      show ?thesis
      proof (cases "retryable (categorizeError js e []) \<and> attempt \<noteq> maxRetries")
        case False
        then show ?thesis using le m step Inl by (subst retryLoop.simps) (auto simp: Let_def)
      next
        case True
        have ih: "R (rt_state (backoff js baseDelay attempt (rt\<lparr>rt_state := s'\<rparr>)))
           (rt_state (snd (retryLoop js operation maxRetries baseDelay (attempt + 1) (Some e)
              (backoff js baseDelay attempt (rt\<lparr>rt_state := s'\<rparr>)))))"
        proof -
          have eq: "(Inl e, s') = operation (rt_state rt)" using m Inl by simp
          have nn: "\<not> \<not> retryable (categorizeError js e [])" using True by simp
          have ne: "attempt \<noteq> maxRetries" using True by simp
          show ?thesis by (rule "1.IH"[OF refl le eq refl refl nn ne "1.prems"])
        qed
        have b: "rt_state (backoff js baseDelay attempt (rt\<lparr>rt_state := s'\<rparr>)) = s'"
          by (simp add: backoff_def Let_def)
        have "retryLoop js operation maxRetries baseDelay attempt lastError rt =
           retryLoop js operation maxRetries baseDelay (attempt + 1) (Some e)
              (backoff js baseDelay attempt (rt\<lparr>rt_state := s'\<rparr>))"
          using le m Inl True by (subst retryLoop.simps) simp
        then show ?thesis using ih b step Rtrans by (metis transpD)
      qed
    qed
  qed
qed

lemma keeps_withRetry:
  assumes "keeps ledgerKept operation"
  shows "keeps (onState ledgerKept) (withRetry js operation maxRetries baseDelay)"
  unfolding keeps_def onState_def withRetry_def
  using retryLoop_keeps[where js = js, OF ledgerKept_reflp ledgerKept_transp assms] by blast

lemma keeps_if: "keeps R a \<Longrightarrow> keeps R b \<Longrightarrow> keeps R (if c then a else b)"
  by simp

lemma keeps_option:
  "keeps R a \<Longrightarrow> (\<And>y. keeps R (b y)) \<Longrightarrow> keeps R (case x of None \<Rightarrow> a | Some y \<Rightarrow> b y)"
  by (cases x) simp_all

lemma keeps_status:
  "keeps R a \<Longrightarrow> keeps R b \<Longrightarrow> keeps R c
     \<Longrightarrow> keeps R (case t of Active \<Rightarrow> a | Suspended \<Rightarrow> b | Canceled \<Rightarrow> c)"
  by (cases t) simp_all

lemma keeps_remote: "keeps ledgerKept remote"
  by (simp add: keeps_def ledgerKept_def ledgerKeys_def remote_def split: list.splits option.splits)

lemma keeps_record_call: "keeps ledgerKept (record_call c)"
  by (simp add: keeps_def ledgerKept_def ledgerKeys_def record_call_def)

lemma keeps_after_remote:
  assumes "\<And>w. ledgerKept w (snd (f w))"
  shows "keeps ledgerKept (andThen remote (\<lambda>_. f))"
  by (rule keeps_andThen[OF ledgerKept_transp keeps_remote]) (simp add: keeps_def assms)

lemma keeps_recorded:
  assumes "\<And>w. ledgerKept w (snd (f w))"
  shows "keeps ledgerKept (andThen (record_call c) (\<lambda>_. andThen remote (\<lambda>_. f)))"
  by (rule keeps_andThen[OF ledgerKept_transp keeps_record_call]) (rule keeps_after_remote[OF assms])

lemma keeps_recorded_remote:
  "keeps ledgerKept (andThen (record_call c) (\<lambda>_. remote))"
  by (rule keeps_andThen[OF ledgerKept_transp keeps_record_call]) (rule keeps_remote)

lemma keeps_database:
  "keeps ledgerKept (DatabaseService_findCustomerByStripeId a)"
  "keeps ledgerKept (DatabaseService_createCustomer a b c d)"
  "keeps ledgerKept (DatabaseService_findSubscriptionByStripeId a)"
  "keeps ledgerKept (DatabaseService_createSubscription n a b' a' t)"
  "keeps ledgerKept (DatabaseService_updateSubscriptionStatus n t)"
  "keeps ledgerKept (DatabaseService_findPlanMapping p b)"
  "keeps ledgerKept (DatabaseService_updateWebhookStatus a g b)"
  "keeps ledgerKept (DatabaseService_updateSubscriptionPlan n a)"
  unfolding DatabaseService_findCustomerByStripeId_def DatabaseService_createCustomer_def
    DatabaseService_findSubscriptionByStripeId_def DatabaseService_createSubscription_def
    DatabaseService_updateSubscriptionStatus_def DatabaseService_findPlanMapping_def
    DatabaseService_updateWebhookStatus_def DatabaseService_updateSubscriptionPlan_def
  by ((rule keeps_recorded keeps_after_remote),
      simp add: ledgerKept_def ledgerKeys_def Let_def comp_def split: option.splits)+

lemma keeps_services:
  "keeps ledgerKept (StripeService_getCustomer a)"
  "keeps ledgerKept (StripeService_getSubscription a)"
  "keeps ledgerKept (EnhanceService_createCustomer b a a')"
  "keeps ledgerKept (EnhanceService_createSubscription a a')"
  "keeps ledgerKept (EnhanceService_getSubscription a)"
  "keeps ledgerKept (EnhanceService_suspendSubscription a)"
  "keeps ledgerKept (EnhanceService_reactivateSubscription a)"
  "keeps ledgerKept (EnhanceService_cancelSubscription a)"
  "keeps ledgerKept (EnhanceService_changeSubscriptionPlan a a')"
  unfolding StripeService_getCustomer_def StripeService_getSubscription_def
    EnhanceService_createCustomer_def EnhanceService_createSubscription_def
    EnhanceService_suspendSubscription_def EnhanceService_reactivateSubscription_def
    EnhanceService_cancelSubscription_def EnhanceService_getSubscription_def
    EnhanceService_changeSubscriptionPlan_def
  by ((rule keeps_recorded keeps_after_remote), simp add: ledgerKept_def ledgerKeys_def)+
     (rule keeps_recorded_remote)+


lemmas keeps_rules = keeps_andThen[OF ledgerKept_transp] keeps_ret[OF ledgerKept_reflp]
  keeps_throw[OF ledgerKept_reflp] keeps_if keeps_option keeps_status keeps_database keeps_services

lemma keeps_updated: "keeps ledgerKept (handleSubscriptionUpdated_operation event)"
  unfolding handleSubscriptionUpdated_operation_def by (intro keeps_rules)

lemma keeps_deleted: "keeps ledgerKept (handleSubscriptionDeleted_operation event)"
  unfolding handleSubscriptionDeleted_operation_def by (intro keeps_rules)

lemma keeps_checkout_customer: "keeps ledgerKept (checkout_customer cd)"
  unfolding checkout_customer_def by (intro keeps_rules)

lemma keeps_checkout_subscription: "keeps ledgerKept (checkout_subscription sd c)"
  unfolding checkout_subscription_def by (intro keeps_rules)

lemma keeps_checkout: "keeps ledgerKept (handleCheckoutCompleted_operation event)"
  unfolding handleCheckoutCompleted_operation_def
  by (cases "extractCustomerData event"; cases "extractSubscriptionData event")
     (simp_all add: keeps_rules keeps_checkout_customer keeps_checkout_subscription)

lemma keeps_dispatch: "keeps (onState ledgerKept) (dispatch js event)"
  unfolding dispatch_def handleCheckoutCompleted_def handleSubscriptionDeleted_def
    handleSubscriptionUpdated_def
  by (intro keeps_if keeps_withRetry keeps_updated keeps_deleted keeps_checkout
      keeps_ret[OF kept_reflp])

lemma keeps_handleWebhookError: "keeps ledgerKept (handleWebhookError js e k ty)"
  unfolding handleWebhookError_def Let_def by (rule keeps_database)

lemma keeps_processing: "keeps (onState ledgerKept) (processing js k event)"
  unfolding processing_def
  by (intro keeps_andThen[OF kept_transp] keeps_tryCatch[OF kept_transp] keeps_lift
      keeps_database keeps_dispatch keeps_handleWebhookError keeps_ret[OF kept_reflp]
      keeps_throw[OF kept_reflp])

lemma POST_state: "snd (POST js constructEvent requestId request rt)
     = snd (POST_try js constructEvent requestId request rt)"
  by (simp add: POST_def Let_def split: prod.splits sum.splits)

lemma POST_try_verified:
  assumes "truthy (req_signature request)"
    and "constructEvent (req_body request) (render (req_signature request)) = Inr event"
    and "k = ''stripe_'' @ e_id event"
  shows "POST_try js constructEvent requestId request =
     andThen (lift (DatabaseService_webhookExists k)) (\<lambda>seen.
       if seen then
         ret \<lparr>resp_status = 200, resp_json = Received (Some ''Event already processed'')\<rparr>
       else
         andThen (withRetry js (DatabaseService_logWebhook k ''stripe''
                               (e_type event) event (Some RECEIVED)) 3 (d_num js 1000)) (\<lambda>_.
         processing js k event))"
  using assms
  by (simp add: POST_try_def StripeService_verifyWebhookSignature_def Let_def processing_def
      cong: if_cong)

lemma seen_iff:
  "list_ex (\<lambda>l. wl_idempotency_key l = k) (webhook_logs w) = (k \<in> set (ledgerKeys w))"
  by (auto simp: ledgerKeys_def list_ex_iff)

lemma POST_short_circuit:
  assumes sig: "truthy (req_signature request)"
    and verified: "constructEvent (req_body request) (render (req_signature request)) = Inr event"
    and key: "k = ''stripe_'' @ e_id event"
    and seen: "k \<in> set (ledgerKeys (rt_state rt))"
    and check: "nextFault (rt_state rt) = None"
  shows "POST js constructEvent requestId request rt =
     (\<lparr>resp_status = 200, resp_json = Received (Some ''Event already processed'')\<rparr>,
      rt\<lparr>rt_state := (rt_state rt)\<lparr>faults := tl (faults (rt_state rt))\<rparr>\<rparr>)"
proof -
  have "list_ex (\<lambda>l. wl_idempotency_key l = k) (webhook_logs (rt_state rt))"
    using seen by (simp add: seen_iff)
  then show ?thesis
    by (simp add: POST_def
        POST_try_verified[where constructEvent = constructEvent and request = request,
          OF sig verified key]
        andThen_def lift_def ret_def DatabaseService_webhookExists_def remote_ok[OF check])
qed

lemma POST_first:
  assumes sig: "truthy (req_signature request)"
    and verified: "constructEvent (req_body request) (render (req_signature request)) = Inr event"
    and key: "k = ''stripe_'' @ e_id event"
    and quiet: "faults (rt_state rt) = []"
  shows "ledgerKeys (rt_state (snd (POST js constructEvent requestId request rt)))
           = (if k \<in> set (ledgerKeys (rt_state rt))
              then ledgerKeys (rt_state rt)
              else ledgerKeys (rt_state rt) @ [k])
       \<and> faults (rt_state (snd (POST js constructEvent requestId request rt))) = []"
proof (cases "k \<in> set (ledgerKeys (rt_state rt))")
  case True
  then show ?thesis
    using quiet
    by (simp add: POST_state
        POST_try_verified[where constructEvent = constructEvent and request = request,
          OF sig verified key]
        andThen_def ret_def exists_check[OF quiet] seen_iff)
next
  case False
  let ?row = "\<lparr>wl_idempotency_key = k, wl_source = ''stripe'', wl_event_type = e_type event,
               wl_status = RECEIVED, wl_payload_json = event, wl_error_message = None\<rparr>"
  let ?rt1 = "rt\<lparr>rt_state := (rt_state rt)\<lparr>calls := calls (rt_state rt) @ [Db_logWebhook k],
          webhook_logs := webhook_logs (rt_state rt) @ [?row]\<rparr>\<rparr>"
  have fresh: "\<not> list_ex (\<lambda>l. wl_idempotency_key l = k) (webhook_logs (rt_state rt))"
    using False by (simp add: seen_iff)
  have st: "snd (POST js constructEvent requestId request rt) = snd (processing js k event ?rt1)"
    using fresh
    by (simp add: POST_state
        POST_try_verified[where constructEvent = constructEvent and request = request,
          OF sig verified key]
        andThen_def exists_check[OF quiet] log_first[OF quiet fresh])
  have kp: "onState ledgerKept ?rt1 (snd (processing js k event ?rt1))"
    using keeps_processing[of js k event] by (simp add: keeps_def)
  show ?thesis
    using kp False quiet unfolding st onState_def ledgerKept_def
    by (simp add: ledgerKeys_def)
qed

lemma count_one:
  assumes "distinct xs" "x \<in> set xs"
  shows "length (filter (\<lambda>k. k = x) xs) = 1"
  using assms by (induction xs) (auto simp: filter_empty_conv)

lemma quiet_tail:
  assumes "faults (rt_state rt) = []"
  shows "rt\<lparr>rt_state := (rt_state rt)\<lparr>faults := tl (faults (rt_state rt))\<rparr>\<rparr> = rt"
proof -
  have "(rt_state rt)\<lparr>faults := tl (faults (rt_state rt))\<rparr> = (rt_state rt)\<lparr>faults := faults (rt_state rt)\<rparr>"
    using assms by simp
  then show ?thesis by simp
qed

text \<open>
  Claim C5. Take a request whose signature verifies to an event with idempotency key
  \<open>k\<close>. If the ledger already has an entry with key \<open>k\<close>, in whatever status, and the
  existence check itself does not fail, the handler answers 200 with "Event already
  processed" and changes nothing but the consumed outcome of that check: no call is
  recorded, no table is written. Hence, in a run in which no remote call fails and on a
  ledger with unique keys, delivering the event and then delivering it again answers the
  second delivery in that way, without any change of the state, and the ledger holds
  exactly one entry with key \<open>k\<close>.
\<close>

theorem redelivery_is_short_circuited:
  assumes sig: "truthy (req_signature request)"
    and verified: "constructEvent (req_body request) (render (req_signature request)) = Inr event"
    and key: "k = ''stripe_'' @ e_id event"
    and rt: "rt_state rt = w"
  shows "(k \<in> set (ledgerKeys w) \<and> nextFault w = None \<longrightarrow>
            POST js constructEvent requestId request rt =
              (\<lparr>resp_status = 200, resp_json = Received (Some ''Event already processed'')\<rparr>,
               rt\<lparr>rt_state := w\<lparr>faults := tl (faults w)\<rparr>\<rparr>))
       \<and> (faults w = [] \<and> distinct (ledgerKeys w) \<longrightarrow>
            (\<exists>response rt1. POST js constructEvent requestId request rt = (response, rt1)
               \<and> POST js constructEvent requestId' request rt1 =
                   (\<lparr>resp_status = 200, resp_json = Received (Some ''Event already processed'')\<rparr>,
                    rt1)
               \<and> length (filter (\<lambda>x. x = k) (ledgerKeys (rt_state rt1))) = 1))"
proof (intro conjI impI)
  assume a: "k \<in> set (ledgerKeys w) \<and> nextFault w = None"
  then have s: "k \<in> set (ledgerKeys (rt_state rt))" and n: "nextFault (rt_state rt) = None"
    using rt by simp_all
  from POST_short_circuit[where constructEvent = constructEvent and request = request
      and requestId = requestId, OF sig verified key s n] rt
  show "POST js constructEvent requestId request rt =
              (\<lparr>resp_status = 200, resp_json = Received (Some ''Event already processed'')\<rparr>,
               rt\<lparr>rt_state := w\<lparr>faults := tl (faults w)\<rparr>\<rparr>)" by simp
next
  assume a: "faults w = [] \<and> distinct (ledgerKeys w)"
  obtain response rt1 where p: "POST js constructEvent requestId request rt = (response, rt1)"
    by (cases "POST js constructEvent requestId request rt")
  have q: "faults (rt_state rt) = []" using a rt by simp
  from POST_first[where constructEvent = constructEvent and request = request
      and requestId = requestId and js = js, OF sig verified key q] p
  have keys: "ledgerKeys (rt_state rt1)
           = (if k \<in> set (ledgerKeys w) then ledgerKeys w else ledgerKeys w @ [k])"
    and q1: "faults (rt_state rt1) = []"
    using rt by simp_all
  have d1: "distinct (ledgerKeys (rt_state rt1))" and m1: "k \<in> set (ledgerKeys (rt_state rt1))"
    using keys a by (simp_all split: if_splits)
  have nf: "nextFault (rt_state rt1) = None" using q1 by (simp add: nextFault_def)
  have second: "POST js constructEvent requestId' request rt1 =
                   (\<lparr>resp_status = 200, resp_json = Received (Some ''Event already processed'')\<rparr>, rt1)"
    using POST_short_circuit[where constructEvent = constructEvent and request = request
      and requestId = requestId', OF sig verified key m1 nf] quiet_tail[OF q1] by simp
  show "\<exists>response rt1. POST js constructEvent requestId request rt = (response, rt1)
               \<and> POST js constructEvent requestId' request rt1 =
                   (\<lparr>resp_status = 200, resp_json = Received (Some ''Event already processed'')\<rparr>,
                    rt1)
               \<and> length (filter (\<lambda>x. x = k) (ledgerKeys (rt_state rt1))) = 1"
    using p second count_one[OF d1 m1] by blast
qed


theorem redelivery_is_short_circuited_witness:
  "POST asciiPlatform (accepting (exampleEvent ''customer.subscription.updated'' ''past_due'')) ''req_2''
       exampleRequest (freshRuntime (ledgerWorld PROCESSING) halves)
     = (\<lparr>resp_status = 200, resp_json = Received (Some ''Event already processed'')\<rparr>,
        freshRuntime (ledgerWorld PROCESSING) halves)
   \<and> (\<exists>response rt1.
         POST asciiPlatform (accepting (exampleEvent ''customer.subscription.updated'' ''past_due'')) ''req_1''
             exampleRequest (freshRuntime (exampleWorld ''past_due'') halves) = (response, rt1)
       \<and> POST asciiPlatform (accepting (exampleEvent ''customer.subscription.updated'' ''past_due'')) ''req_2''
             exampleRequest rt1
           = (\<lparr>resp_status = 200, resp_json = Received (Some ''Event already processed'')\<rparr>, rt1)
       \<and> length (filter (\<lambda>x. x = ''stripe_evt_1'') (ledgerKeys (rt_state rt1))) = 1)"
proof -
  let ?ev = "exampleEvent ''customer.subscription.updated'' ''past_due''"
  have sig: "truthy (req_signature exampleRequest)"
    by (simp add: exampleRequest_def truthy_def)
  have ver: "accepting ?ev (req_body exampleRequest) (render (req_signature exampleRequest)) = Inr ?ev"
    by (simp add: accepting_def)
  have key: "''stripe_evt_1'' = ''stripe_'' @ e_id ?ev"
    by (simp add: exampleEvent_def)
  have l: "''stripe_evt_1'' \<in> set (ledgerKeys (ledgerWorld PROCESSING)) \<and> nextFault (ledgerWorld PROCESSING) = None"
    by (simp add: ledgerKeys_def ledgerWorld_def exampleLog_def nextFault_def exampleWorld_def)
  have e: "faults (exampleWorld ''past_due'') = [] \<and> distinct (ledgerKeys (exampleWorld ''past_due''))"
    by (simp add: ledgerKeys_def exampleWorld_def)
  have t: "(freshRuntime (ledgerWorld PROCESSING) halves)
       \<lparr>rt_state := (ledgerWorld PROCESSING)\<lparr>faults := tl (faults (ledgerWorld PROCESSING))\<rparr>\<rparr>
     = freshRuntime (ledgerWorld PROCESSING) halves"
    by (simp add: freshRuntime_def ledgerWorld_def exampleWorld_def)
  show ?thesis
    using redelivery_is_short_circuited[where constructEvent = "accepting ?ev"
        and request = exampleRequest and event = ?ev and k = "''stripe_evt_1''"
        and rt = "freshRuntime (ledgerWorld PROCESSING) halves" and w = "ledgerWorld PROCESSING"
        and requestId = "''req_2''", OF sig ver key fresh_state]
      redelivery_is_short_circuited[where constructEvent = "accepting ?ev"
        and request = exampleRequest and event = ?ev and k = "''stripe_evt_1''"
        and rt = "freshRuntime (exampleWorld ''past_due'') halves" and w = "exampleWorld ''past_due''"
        and requestId = "''req_1''" and requestId' = "''req_2''", OF sig ver key fresh_state]
      l e t
    by simp
qed

lemma classify_no_plan:
  "categorizeError asciiPlatform (Error ''No plan mapping found for Stripe price: price_gold'') ctx
     = newAppError ''No plan mapping found for Stripe price: price_gold'' SYSTEM MEDIUM False ctx"
  by (simp add: categorizeError.simps(2) ascii_lower asciiLowerChar_def)

lemma example_unmapped:
  "find (\<lambda>m. pm_billing_provider m = Stripe \<and> Some (pm_billing_plan_id m) = Some ''price_gold'')
     (plan_mappings (exampleWorld st)) = None"
  by (simp add: exampleWorld_def seedMappings_def)

lemma checkout_handler_missing:
  assumes quiet: "faults (rt_state rt) = []"
    and missing: "find (\<lambda>m. pm_billing_provider m = Stripe
                      \<and> Some (pm_billing_plan_id m) = o_line_item_price (e_object event))
                    (plan_mappings (rt_state rt)) = None"
    and ev: "e_type event = ''checkout.session.completed''"
    and cd: "extractCustomerData event = Some cd"
    and cc: "checkout_customer cd (rt_state rt) = (Inr customer, w1)"
  shows "handleCheckoutCompleted js event rt =
     (Inl (AppErr \<lparr>message = ''No plan mapping found for Stripe price: ''
                              @ render (o_line_item_price (e_object event)),
                    category = BUSINESS_LOGIC, severity = HIGH, retryable = False,
                    err_context = []\<rparr>),
      rt\<lparr>rt_state := w1\<rparr>)"
proof -
  let ?sd = "\<lparr>sd_stripeSubscriptionId = o_subscription (e_object event),
           sd_stripeCustomerId = o_customer (e_object event),
           sd_stripePriceId = o_line_item_price (e_object event),
           sd_status = ''active''\<rparr>"
  let ?e = "newAppError3 (''No plan mapping found for Stripe price: ''
                @ render (o_line_item_price (e_object event))) BUSINESS_LOGIC HIGH"
  have sd: "extractSubscriptionData event = Some ?sd"
    using checkout_event_data(1)[OF ev] .
  have k: "ledgerKept (rt_state rt) w1"
    using keeps_step[OF keeps_checkout_customer cc] .
  have q1: "faults w1 = []" and m1: "plan_mappings w1 = plan_mappings (rt_state rt)"
    using k quiet by (simp_all add: ledgerKept_def)
  have sub: "checkout_subscription ?sd customer w1 = (Inl (AppErr ?e), w1)"
    using checkout_subscription_missing[of w1 ?sd customer] q1 m1 missing by simp
  have op: "handleCheckoutCompleted_operation event (rt_state rt) = (Inl (AppErr ?e), w1)"
    by (simp add: handleCheckoutCompleted_operation_def andThen_def cd sd cc sub)
  show ?thesis
    using withRetry_first_fatal[where operation = "handleCheckoutCompleted_operation event"
        and rt = rt and maxRetries = 3 and js = js, OF op]
    by (simp add: handleCheckoutCompleted_def newAppError3_def newAppError_def)
qed

text \<open>
  Claim C8, as the code has it. Let the plan-mapping table have no entry for the payments
  provider and a price, in a run in which no remote call fails.

    \<^item> The plan resolution of the checkout-completion operation then throws, for every
      customer, the \<open>AppError\<close> "No plan mapping found for Stripe price: ..." of category
      BusinessLogic and high severity that is not retryable, and leaves the state as it
      was.
    \<^item> For a checkout event with that price the handler has a customer projection, and
      whenever its customer step returns a customer, be it one that was linked already
      or one that the step has just created, the handler throws that same error after
      one attempt, without retry; the state it leaves is the one the customer step has
      left. For a customer that is linked already this is the state before the event.
    \<^item> The plan-change operation, for a known subscription, throws a plain error with
      the message "No plan mapping found for Stripe price: ..." that carries no
      category and leaves the state as it was. The classifier never gives BusinessLogic
      to a plain error; it calls this one System and not retryable, unless the
      lower-cased message contains one of its twelve keywords.
\<close>

theorem missing_plan_mapping:
  assumes quiet: "faults w = []"
    and missing: "find (\<lambda>m. pm_billing_provider m = Stripe \<and> Some (pm_billing_plan_id m) = price)
                    (plan_mappings w) = None"
    and rt: "rt_state rt = w"
  shows "(\<forall>sd customer. sd_stripePriceId sd = price \<longrightarrow>
            checkout_subscription sd customer w =
              (Inl (AppErr \<lparr>message = ''No plan mapping found for Stripe price: '' @ render price,
                             category = BUSINESS_LOGIC, severity = HIGH, retryable = False,
                             err_context = []\<rparr>), w))
       \<and> (e_type event = ''checkout.session.completed''
            \<and> o_line_item_price (e_object event) = price \<longrightarrow>
            (\<exists>cd. extractCustomerData event = Some cd
               \<and> (\<forall>customer w1. checkout_customer cd w = (Inr customer, w1) \<longrightarrow>
                     handleCheckoutCompleted js event rt =
                       (Inl (AppErr \<lparr>message = ''No plan mapping found for Stripe price: ''
                                                @ render price,
                                      category = BUSINESS_LOGIC, severity = HIGH,
                                      retryable = False, err_context = []\<rparr>),
                        rt\<lparr>rt_state := w1\<rparr>))
               \<and> (find (\<lambda>c. c_stripe_customer_id c = Some (o_customer (e_object event))
                              \<and> \<not> c_deleted c) (customers w) \<noteq> None \<longrightarrow>
                     handleCheckoutCompleted js event rt =
                       (Inl (AppErr \<lparr>message = ''No plan mapping found for Stripe price: ''
                                                @ render price,
                                      category = BUSINESS_LOGIC, severity = HIGH,
                                      retryable = False, err_context = []\<rparr>),
                        rt))))
       \<and> (\<forall>p. price = Some p
            \<and> find (\<lambda>s. s_stripe_subscription_id s = Some sid) (subscriptions w) \<noteq> None \<longrightarrow>
            changePlan sid p w
              = (Inl (Error (''No plan mapping found for Stripe price: '' @ p)), w)
            \<and> category (categorizeError js (Error (''No plan mapping found for Stripe price: '' @ p)) ctx)
                \<noteq> BUSINESS_LOGIC
            \<and> (\<not> mentions js (''No plan mapping found for Stripe price: '' @ p) classifierKeywords
                 \<longrightarrow> verdict (categorizeError js
                               (Error (''No plan mapping found for Stripe price: '' @ p)) ctx)
                       = (SYSTEM, False)))"
proof (intro conjI allI impI)
  fix sd :: SubscriptionData and customer
  assume "sd_stripePriceId sd = price"
  then show "checkout_subscription sd customer w =
              (Inl (AppErr \<lparr>message = ''No plan mapping found for Stripe price: '' @ render price,
                             category = BUSINESS_LOGIC, severity = HIGH, retryable = False,
                             err_context = []\<rparr>), w)"
    using checkout_subscription_missing[of w sd customer] quiet missing
    by (simp add: newAppError3_def newAppError_def)
next
  assume a: "e_type event = ''checkout.session.completed''
            \<and> o_line_item_price (e_object event) = price"
  from a checkout_event_data(2)[of event] obtain cd where
    cd: "extractCustomerData event = Some cd" "cd_stripeCustomerId cd = o_customer (e_object event)"
    by blast
  have q: "faults (rt_state rt) = []" using quiet rt by simp
  have m: "find (\<lambda>m. pm_billing_provider m = Stripe
                      \<and> Some (pm_billing_plan_id m) = o_line_item_price (e_object event))
                    (plan_mappings (rt_state rt)) = None"
    using missing rt a by simp
  have ev: "e_type event = ''checkout.session.completed''" using a by simp
  have created: "\<forall>customer w1. checkout_customer cd w = (Inr customer, w1) \<longrightarrow>
       handleCheckoutCompleted js event rt =
         (Inl (AppErr \<lparr>message = ''No plan mapping found for Stripe price: '' @ render price,
                        category = BUSINESS_LOGIC, severity = HIGH,
                        retryable = False, err_context = []\<rparr>),
          rt\<lparr>rt_state := w1\<rparr>)"
    using checkout_handler_missing[where js = js, OF q m ev cd(1)] rt a by simp
  have linked: "find (\<lambda>c. c_stripe_customer_id c = Some (o_customer (e_object event))
                              \<and> \<not> c_deleted c) (customers w) \<noteq> None \<longrightarrow>
       handleCheckoutCompleted js event rt =
         (Inl (AppErr \<lparr>message = ''No plan mapping found for Stripe price: '' @ render price,
                        category = BUSINESS_LOGIC, severity = HIGH,
                        retryable = False, err_context = []\<rparr>),
          rt)"
  proof
    assume "find (\<lambda>c. c_stripe_customer_id c = Some (o_customer (e_object event))
                              \<and> \<not> c_deleted c) (customers w) \<noteq> None"
    then obtain customer where "find (\<lambda>c. c_stripe_customer_id c = Some (o_customer (e_object event))
                              \<and> \<not> c_deleted c) (customers w) = Some customer" by auto
    then have "checkout_customer cd w = (Inr customer, w)"
      using checkout_customer_linked[of w cd customer] quiet cd(2) by simp
    with created have "handleCheckoutCompleted js event rt =
         (Inl (AppErr \<lparr>message = ''No plan mapping found for Stripe price: '' @ render price,
                        category = BUSINESS_LOGIC, severity = HIGH,
                        retryable = False, err_context = []\<rparr>),
          rt\<lparr>rt_state := w\<rparr>)" by blast
    then show "handleCheckoutCompleted js event rt =
         (Inl (AppErr \<lparr>message = ''No plan mapping found for Stripe price: '' @ render price,
                        category = BUSINESS_LOGIC, severity = HIGH,
                        retryable = False, err_context = []\<rparr>),
          rt)" using rt by simp
  qed
  show "\<exists>cd. extractCustomerData event = Some cd
               \<and> (\<forall>customer w1. checkout_customer cd w = (Inr customer, w1) \<longrightarrow>
                     handleCheckoutCompleted js event rt =
                       (Inl (AppErr \<lparr>message = ''No plan mapping found for Stripe price: ''
                                                @ render price,
                                      category = BUSINESS_LOGIC, severity = HIGH,
                                      retryable = False, err_context = []\<rparr>),
                        rt\<lparr>rt_state := w1\<rparr>))
               \<and> (find (\<lambda>c. c_stripe_customer_id c = Some (o_customer (e_object event))
                              \<and> \<not> c_deleted c) (customers w) \<noteq> None \<longrightarrow>
                     handleCheckoutCompleted js event rt =
                       (Inl (AppErr \<lparr>message = ''No plan mapping found for Stripe price: ''
                                                @ render price,
                                      category = BUSINESS_LOGIC, severity = HIGH,
                                      retryable = False, err_context = []\<rparr>),
                        rt))"
    using cd(1) created linked by blast
next
  fix p
  assume a: "price = Some p
            \<and> find (\<lambda>s. s_stripe_subscription_id s = Some sid) (subscriptions w) \<noteq> None"
  then obtain sub where "find (\<lambda>s. s_stripe_subscription_id s = Some sid) (subscriptions w) = Some sub"
    by auto
  then show "changePlan sid p w
              = (Inl (Error (''No plan mapping found for Stripe price: '' @ p)), w)"
    using quiet missing a by (simp add: changePlan_def io_defs db_defs)
  show "category (categorizeError js (Error (''No plan mapping found for Stripe price: '' @ p)) ctx)
                \<noteq> BUSINESS_LOGIC"
    by (rule classifier_never_business_logic)
next
  fix p
  assume "\<not> mentions js (''No plan mapping found for Stripe price: '' @ p) classifierKeywords"
  then show "verdict (categorizeError js
                               (Error (''No plan mapping found for Stripe price: '' @ p)) ctx)
                       = (SYSTEM, False)"
    by (simp add: categorizeError.simps(2) mentions_code classifierKeywords_def verdict_def
        newAppError_def Let_def)
qed

lemma new_buyer_customer:
  "checkout_customer
       \<lparr>cd_stripeCustomerId = ''cus_2'', cd_email = Some ''bob@example.com'', cd_name = Some ''Bob''\<rparr>
       (exampleWorld ''active'')
     = (Inr \<lparr>c_id = 2, c_enhance_customer_id = ''enh_new'', c_stripe_customer_id = Some ''cus_2'',
             c_email = ''bob@example.com'', c_name = Some ''Bob'', c_deleted = False\<rparr>,
        (exampleWorld ''active'')
          \<lparr>customers := [customer1,
              \<lparr>c_id = 2, c_enhance_customer_id = ''enh_new'', c_stripe_customer_id = Some ''cus_2'',
               c_email = ''bob@example.com'', c_name = Some ''Bob'', c_deleted = False\<rparr>],
           customers_seq := 2,
           calls := [Enh_createCustomer (Some ''bob@example.com'') ''Bob'' ''Bob'',
                     Db_createCustomer ''enh_new'' (Some ''cus_2'') (Some ''bob@example.com'')
                       (Some ''Bob'')]\<rparr>)"
  by (simp add: checkout_customer_def io_defs db_defs EnhanceService_createCustomer_def
      DatabaseService_createCustomer_def exampleWorld_def customer1_def truthy_def render_def
      emailShaped_def always_def Let_def)

theorem missing_plan_mapping_witness:
  "handleCheckoutCompleted asciiPlatform (exampleEvent ''checkout.session.completed'' ''complete'')
       (freshRuntime (exampleWorld ''active'') halves)
     = (Inl (AppErr \<lparr>message = ''No plan mapping found for Stripe price: price_gold'',
                    category = BUSINESS_LOGIC, severity = HIGH, retryable = False,
                    err_context = []\<rparr>),
        freshRuntime (exampleWorld ''active'') halves)
   \<and> handleCheckoutCompleted asciiPlatform newBuyerEvent
       (freshRuntime (exampleWorld ''active'') halves)
     = (Inl (AppErr \<lparr>message = ''No plan mapping found for Stripe price: price_gold'',
                    category = BUSINESS_LOGIC, severity = HIGH, retryable = False,
                    err_context = []\<rparr>),
        freshRuntime ((exampleWorld ''active'')
          \<lparr>customers := [customer1,
              \<lparr>c_id = 2, c_enhance_customer_id = ''enh_new'', c_stripe_customer_id = Some ''cus_2'',
               c_email = ''bob@example.com'', c_name = Some ''Bob'', c_deleted = False\<rparr>],
           customers_seq := 2,
           calls := [Enh_createCustomer (Some ''bob@example.com'') ''Bob'' ''Bob'',
                     Db_createCustomer ''enh_new'' (Some ''cus_2'') (Some ''bob@example.com'')
                       (Some ''Bob'')]\<rparr>) halves)
   \<and> changePlan ''sub_1'' ''price_gold'' (exampleWorld ''active'')
       = (Inl (Error ''No plan mapping found for Stripe price: price_gold''), exampleWorld ''active'')
   \<and> verdict (categorizeError asciiPlatform
                (Error ''No plan mapping found for Stripe price: price_gold'') [])
       = (SYSTEM, False)"
proof -
  have c: "find (\<lambda>c. c_stripe_customer_id c
                  = Some (o_customer (e_object (exampleEvent ''checkout.session.completed'' ''complete'')))
                  \<and> \<not> c_deleted c) (customers (exampleWorld ''active'')) \<noteq> None"
    by (simp add: exampleWorld_def customer1_def exampleEvent_def exampleObject_def)
  have p: "o_line_item_price (e_object (exampleEvent ''checkout.session.completed'' ''complete''))
     = Some ''price_gold''"
    "o_line_item_price (e_object newBuyerEvent) = Some ''price_gold''"
    by (simp_all add: exampleEvent_def exampleObject_def newBuyerEvent_def)
  have t: "e_type newBuyerEvent = ''checkout.session.completed''"
    by (simp add: newBuyerEvent_def)
  have d: "extractCustomerData newBuyerEvent
     = Some \<lparr>cd_stripeCustomerId = ''cus_2'', cd_email = Some ''bob@example.com'',
             cd_name = Some ''Bob''\<rparr>"
    by (simp add: extractCustomerData_def newBuyerEvent_def Let_def orElse_def truthy_def)
  have n: "\<not> mentions asciiPlatform ''No plan mapping found for Stripe price: price_gold''
       classifierKeywords"
    by (simp add: mentions_code classifierKeywords_def ascii_lower asciiLowerChar_def)
  have r: "render (Some ''price_gold'') = ''price_gold''"
    by (simp add: render_def)
  have f: "(freshRuntime (exampleWorld ''active'') halves)\<lparr>rt_state := w1\<rparr> = freshRuntime w1 halves"
    for w1 :: world
    by (simp add: freshRuntime_def)
  note A = missing_plan_mapping[where w = "exampleWorld ''active''" and price = "Some ''price_gold''"
        and rt = "freshRuntime (exampleWorld ''active'') halves"
        and event = "exampleEvent ''checkout.session.completed'' ''complete''"
        and sid = "''sub_1''" and js = asciiPlatform and ctx = "[]",
        OF example_quiet example_unmapped fresh_state]
  note B = missing_plan_mapping[where w = "exampleWorld ''active''" and price = "Some ''price_gold''"
        and rt = "freshRuntime (exampleWorld ''active'') halves"
        and event = newBuyerEvent
        and sid = "''sub_1''" and js = asciiPlatform and ctx = "[]",
        OF example_quiet example_unmapped fresh_state]
  have h1: "handleCheckoutCompleted asciiPlatform
       (exampleEvent ''checkout.session.completed'' ''complete'')
       (freshRuntime (exampleWorld ''active'') halves)
     = (Inl (AppErr \<lparr>message = ''No plan mapping found for Stripe price: price_gold'',
                    category = BUSINESS_LOGIC, severity = HIGH, retryable = False,
                    err_context = []\<rparr>),
        freshRuntime (exampleWorld ''active'') halves)"
    using A c p(1) r by (auto simp: example_event)
  from B t p(2) obtain cd where e: "extractCustomerData newBuyerEvent = Some cd"
    and all: "\<forall>customer w1. checkout_customer cd (exampleWorld ''active'') = (Inr customer, w1) \<longrightarrow>
       handleCheckoutCompleted asciiPlatform newBuyerEvent
           (freshRuntime (exampleWorld ''active'') halves) =
         (Inl (AppErr \<lparr>message = ''No plan mapping found for Stripe price: ''
                                   @ render (Some ''price_gold''),
                        category = BUSINESS_LOGIC, severity = HIGH,
                        retryable = False, err_context = []\<rparr>),
          (freshRuntime (exampleWorld ''active'') halves)\<lparr>rt_state := w1\<rparr>)"
    by blast
  have cd: "cd = \<lparr>cd_stripeCustomerId = ''cus_2'', cd_email = Some ''bob@example.com'',
             cd_name = Some ''Bob''\<rparr>"
    using e d by simp
  have h2: "handleCheckoutCompleted asciiPlatform newBuyerEvent
       (freshRuntime (exampleWorld ''active'') halves)
     = (Inl (AppErr \<lparr>message = ''No plan mapping found for Stripe price: price_gold'',
                    category = BUSINESS_LOGIC, severity = HIGH, retryable = False,
                    err_context = []\<rparr>),
        freshRuntime ((exampleWorld ''active'')
          \<lparr>customers := [customer1,
              \<lparr>c_id = 2, c_enhance_customer_id = ''enh_new'', c_stripe_customer_id = Some ''cus_2'',
               c_email = ''bob@example.com'', c_name = Some ''Bob'', c_deleted = False\<rparr>],
           customers_seq := 2,
           calls := [Enh_createCustomer (Some ''bob@example.com'') ''Bob'' ''Bob'',
                     Db_createCustomer ''enh_new'' (Some ''cus_2'') (Some ''bob@example.com'')
                       (Some ''Bob'')]\<rparr>) halves)"
    using all[unfolded cd f r, rule_format, OF new_buyer_customer] by simp
  have h3: "changePlan ''sub_1'' ''price_gold'' (exampleWorld ''active'')
       = (Inl (Error ''No plan mapping found for Stripe price: price_gold''), exampleWorld ''active'')
     \<and> verdict (categorizeError asciiPlatform
                (Error ''No plan mapping found for Stripe price: price_gold'') [])
       = (SYSTEM, False)"
    using A n by (simp add: example_found)
  show ?thesis using h1 h2 h3 by simp
qed

text \<open>
  Claim C8 as stated fails for the plan-change operation: its error for an unmapped price
  is a plain error, which the classifier puts in the category System.
\<close>

theorem changePlan_unclassified_counterexample:
  "find (\<lambda>m. pm_billing_provider m = Stripe \<and> Some (pm_billing_plan_id m) = Some ''price_gold'')
     (plan_mappings (exampleWorld ''active'')) = None
   \<and> changePlan ''sub_1'' ''price_gold'' (exampleWorld ''active'')
       = (Inl (Error ''No plan mapping found for Stripe price: price_gold''), exampleWorld ''active'')
   \<and> verdict (categorizeError asciiPlatform
                (Error ''No plan mapping found for Stripe price: price_gold'') [])
       = (SYSTEM, False)"
  by (simp add: changePlan_def io_defs db_defs classify_no_plan verdict_def newAppError_def
      exampleWorld_def seedMappings_def subscription1_def)

end
